theory Spec2Isabelle
  imports Main
begin

section \<open>JavaScript strings and string helpers\<close>

text \<open>
  A JavaScript string is a sequence of UTF-16 code units.  The model uses \<open>string\<close>
  (a list of \<open>char\<close>), so it covers the texts whose code units are below 256; a
  \<open>char\<close> stands for the code unit with the same number.  Line, column and index values
  are JavaScript numbers that only ever hold integers here; they are modelled as \<open>int\<close>
  where the source does arithmetic that may leave the naturals (\<open>indexOf\<close> returns -1)
  and as \<open>nat\<close> where they index a string.
\<close>

definition is_word :: "char \<Rightarrow> bool" where
  \<comment> \<open>the class \<open>\w\<close>: \<open>[A-Za-z0-9_]\<close>\<close>
  "is_word c = (let n = (of_char c :: nat) in
     (97 \<le> n \<and> n \<le> 122) \<or> (65 \<le> n \<and> n \<le> 90) \<or> (48 \<le> n \<and> n \<le> 57) \<or> n = 95)"

definition is_space :: "char \<Rightarrow> bool" where
  \<comment> \<open>the class \<open>\s\<close> (white space and line terminators) below 256:
      TAB, LF, VT, FF, CR, SP, NBSP\<close>
  "is_space c = (let n = (of_char c :: nat) in (9 \<le> n \<and> n \<le> 13) \<or> n = 32 \<or> n = 160)"

definition is_line_terminator :: "char \<Rightarrow> bool" where
  \<comment> \<open>LF and CR (the other two line terminators, U+2028 and U+2029, are above 255)\<close>
  "is_line_terminator c = (let n = (of_char c :: nat) in n = 10 \<or> n = 13)"

text \<open>\<open>s.split(c)\<close> for a one-character separator: never empty, \<open>''''\<close> gives \<open>['''']\<close>.\<close>

fun split_on :: "char \<Rightarrow> string \<Rightarrow> string list" where
  "split_on c [] = [[]]"
| "split_on c (x # xs) =
     (if x = c then [] # split_on c xs
      else (case split_on c xs of l # ls \<Rightarrow> (x # l) # ls | [] \<Rightarrow> [[x]]))"

text \<open>\<open>s.trim()\<close> strips white space and line terminators from both ends.\<close>

definition trim :: "string \<Rightarrow> string" where
  "trim s = rev (dropWhile is_space (rev (dropWhile is_space s)))"

text \<open>\<open>s.substring(a, b)\<close> for \<open>0 \<le> a \<le> b\<close> (both are clamped to the length).\<close>

definition substring :: "string \<Rightarrow> nat \<Rightarrow> nat \<Rightarrow> string" where
  "substring s a b = take (b - a) (drop a s)"

text \<open>\<open>s.indexOf(w)\<close>: the first index where \<open>w\<close> occurs in \<open>s\<close>, or -1.\<close>

fun index_from :: "string \<Rightarrow> string \<Rightarrow> nat \<Rightarrow> int" where
  "index_from w [] i = (if w = [] then int i else -1)"
| "index_from w (c # cs) i =
     (if take (length w) (c # cs) = w then int i else index_from w cs (Suc i))"

definition indexOf :: "string \<Rightarrow> string \<Rightarrow> int" where
  "indexOf s w = index_from w s 0"

definition str_includes :: "string \<Rightarrow> string \<Rightarrow> bool" where
  "str_includes s w = (indexOf s w \<noteq> -1)"

definition startsWith :: "string \<Rightarrow> string \<Rightarrow> bool" where
  "startsWith s w = (take (length w) s = w)"

section \<open>Regular expressions\<close>

text \<open>
  The analyzers are written with JavaScript regular expressions.  The model has the
  constructs the source's patterns use, and a backtracking matcher with the priorities
  of the ECMAScript semantics: a matcher maps a state to the list of the states it can
  end in, in the order in which backtracking would try them, so the head of the list is
  the match JavaScript reports.
\<close>

datatype atom = AWord | ASpace | AChar char

fun atom_mem :: "atom \<Rightarrow> char \<Rightarrow> bool" where
  "atom_mem AWord c = is_word c"
| "atom_mem ASpace c = is_space c"
| "atom_mem (AChar d) c = (c = d)"

datatype regex =
    Eps
  | Dot                      \<comment> \<open>\<open>.\<close>: any character but a line terminator\<close>
  | Cls "atom list"          \<comment> \<open>\<open>[...]\<close>, also \<open>\w\<close>, \<open>\s\<close> and a literal character\<close>
  | NCls "atom list"         \<comment> \<open>\<open>[^...]\<close>\<close>
  | Seq regex regex
  | Alt regex regex
  | Star regex               \<comment> \<open>greedy \<open>*\<close>\<close>
  | Opt regex                \<comment> \<open>greedy \<open>?\<close>\<close>
  | Group nat regex          \<comment> \<open>capturing group number \<open>n\<close>\<close>
  | Bol                      \<comment> \<open>\<open>^\<close>\<close>
  | Eol                      \<comment> \<open>\<open>$\<close>\<close>
  | WordB                    \<comment> \<open>\<open>\b\<close>\<close>

definition Plus :: "regex \<Rightarrow> regex" where
  \<comment> \<open>greedy \<open>+\<close>: one iteration, then \<open>*\<close>\<close>
  "Plus r = Seq r (Star r)"

definition chr :: "char \<Rightarrow> regex" where
  "chr c = Cls [AChar c]"

definition word :: regex where "word = Cls [AWord]"
definition space :: regex where "space = Cls [ASpace]"

fun seqs :: "regex list \<Rightarrow> regex" where
  "seqs [] = Eps"
| "seqs [r] = r"
| "seqs (r # rs) = Seq r (seqs rs)"

definition lit :: "string \<Rightarrow> regex" where
  \<comment> \<open>a run of literal characters\<close>
  "lit w = seqs (map chr w)"

fun groups_of :: "regex \<Rightarrow> nat list" where
  "groups_of (Seq a b) = groups_of a @ groups_of b"
| "groups_of (Alt a b) = groups_of a @ groups_of b"
| "groups_of (Star r) = groups_of r"
| "groups_of (Opt r) = groups_of r"
| "groups_of (Group n r) = n # groups_of r"
| "groups_of _ = []"

text \<open>
  The state of a match in progress: the character before the current position (none at
  index 0), the text from the current position on, and the captures made so far.
\<close>

record mstate =
  prev :: "char option"
  rest :: string
  caps :: "(nat \<times> string) list"

definition step :: "(char \<Rightarrow> bool) \<Rightarrow> mstate \<Rightarrow> mstate list" where
  "step P s = (case rest s of [] \<Rightarrow> []
     | c # cs \<Rightarrow> if P c then [s\<lparr>prev := Some c, rest := cs\<rparr>] else [])"

definition matched :: "mstate \<Rightarrow> mstate \<Rightarrow> string" where
  \<comment> \<open>the text between two states of one match\<close>
  "matched s s' = take (length (rest s) - length (rest s')) (rest s)"

definition progress :: "mstate \<Rightarrow> mstate \<Rightarrow> bool" where
  "progress s s' = (length (rest s') < length (rest s))"

definition clear :: "regex \<Rightarrow> mstate \<Rightarrow> mstate" where
  \<comment> \<open>an iteration of a quantifier starts with the captures of its body undefined\<close>
  "clear r s = s\<lparr>caps := filter (\<lambda>(n, w). n \<notin> set (groups_of r)) (caps s)\<rparr>"

definition word_before :: "mstate \<Rightarrow> bool" where
  "word_before s = (case prev s of None \<Rightarrow> False | Some c \<Rightarrow> is_word c)"

definition word_after :: "mstate \<Rightarrow> bool" where
  "word_after s = (case rest s of [] \<Rightarrow> False | c # cs \<Rightarrow> is_word c)"

text \<open>
  \<open>ms ml r s\<close>: the end states of \<open>r\<close> from \<open>s\<close>, best first; \<open>ml\<close> is the
  \<open>m\<close> flag.  An iteration of \<open>*\<close> or \<open>?\<close> that consumes nothing is rejected, as
  ECMAScript's RepeatMatcher does.
\<close>

function ms :: "bool \<Rightarrow> regex \<Rightarrow> mstate \<Rightarrow> mstate list" where
  "ms ml Eps s = [s]"
| "ms ml Dot s = step (\<lambda>c. \<not> is_line_terminator c) s"
| "ms ml (Cls as) s = step (\<lambda>c. list_ex (\<lambda>a. atom_mem a c) as) s"
| "ms ml (NCls as) s = step (\<lambda>c. \<not> list_ex (\<lambda>a. atom_mem a c) as) s"
| "ms ml (Seq a b) s = concat (map (ms ml b) (ms ml a s))"
| "ms ml (Alt a b) s = ms ml a s @ ms ml b s"
| "ms ml (Star r) s =
     concat (map (ms ml (Star r)) (filter (progress s) (ms ml r (clear r s)))) @ [s]"
| "ms ml (Opt r) s = filter (progress s) (ms ml r (clear r s)) @ [s]"
| "ms ml (Group n r) s =
     map (\<lambda>s'. s'\<lparr>caps := (n, matched s s') # caps s'\<rparr>) (ms ml r s)"
| "ms ml Bol s =
     (case prev s of None \<Rightarrow> [s]
      | Some c \<Rightarrow> if ml \<and> is_line_terminator c then [s] else [])"
| "ms ml Eol s =
     (case rest s of [] \<Rightarrow> [s]
      | c # cs \<Rightarrow> if ml \<and> is_line_terminator c then [s] else [])"
| "ms ml WordB s = (if word_before s \<noteq> word_after s then [s] else [])"
  by pat_completeness auto
termination
  by (relation "measures [\<lambda>(ml, r, s). size r, \<lambda>(ml, r, s). length (rest s)]")
     (auto simp: progress_def)

text \<open>A match as \<open>exec\<close> returns it: \<open>match.index\<close>, \<open>match[0]\<close> and the groups.\<close>

record rmatch =
  index :: nat
  text0 :: string
  groups :: "(nat \<times> string) list"

definition group :: "rmatch \<Rightarrow> nat \<Rightarrow> string option" where
  \<comment> \<open>\<open>match[n]\<close>; \<open>None\<close> is \<open>undefined\<close>\<close>
  "group m n = map_of (groups m) n"

text \<open>The leftmost match that starts at index \<open>j\<close> or later, \<open>s\<close> being the text from \<open>j\<close>.\<close>

fun search :: "bool \<Rightarrow> regex \<Rightarrow> char option \<Rightarrow> string \<Rightarrow> nat \<Rightarrow> rmatch option" where
  "search ml r p s j =
     (case ms ml r \<lparr>prev = p, rest = s, caps = []\<rparr> of
        s' # _ \<Rightarrow> Some \<lparr>index = j,
                        text0 = matched \<lparr>prev = p, rest = s, caps = []\<rparr> s',
                        groups = caps s'\<rparr>
      | [] \<Rightarrow> (case s of [] \<Rightarrow> None | c # cs \<Rightarrow> search ml r (Some c) cs (Suc j)))"

text \<open>\<open>regex.exec(src)\<close> with \<open>regex.lastIndex = i\<close>.\<close>

definition regexp_exec :: "bool \<Rightarrow> regex \<Rightarrow> string \<Rightarrow> nat \<Rightarrow> rmatch option" where
  "regexp_exec ml r src i =
     (if length src < i then None
      else search ml r (if i = 0 then None else Some (src ! (i - 1))) (drop i src) i)"

definition match_end :: "rmatch \<Rightarrow> nat" where
  "match_end m = index m + length (text0 m)"


text \<open>
  The equation of \<open>*\<close> calls \<open>ms\<close> on the same pattern again, so it is unfolded by
  hand in proofs.  A matcher only consumes text: the text left after a match is a suffix
  of the text before it.
\<close>

declare ms.simps(7) [simp del]

lemma step_suffix: "s' \<in> set (step P s) \<Longrightarrow> \<exists>c. rest s = c # rest s'"
  by (cases "rest s") (auto simp: step_def split: if_splits)

lemma ms_suffix: "s' \<in> set (ms ml r s) \<Longrightarrow> \<exists>w. rest s = w @ rest s'"
proof (induction ml r s arbitrary: s' rule: ms.induct)
  case (1 ml s) then show ?case by simp
next
  case (2 ml s) then show ?case using step_suffix by fastforce
next
  case (3 ml as s) then show ?case using step_suffix by fastforce
next
  case (4 ml as s) then show ?case using step_suffix by fastforce
next
  case (5 ml a b s)
  from 5(3) obtain s1 where s1: "s1 \<in> set (ms ml a s)" and s': "s' \<in> set (ms ml b s1)"
    by auto
  from 5(1)[OF s1] 5(2)[OF s1 s'] show ?case by auto
next
  case (6 ml a b s)
  then show ?case by auto
next
  case (7 ml r s)
  from 7(3) consider "s' = s"
    | s1 where "s1 \<in> set (ms ml r (clear r s))" "progress s s1" "s' \<in> set (ms ml (Star r) s1)"
    by (auto simp: ms.simps(7)[of ml r s])
  then show ?case
  proof cases
    case 1 then show ?thesis by simp
  next
    case 2
    from 7(1)[OF 2(1)] obtain w1 where "rest (clear r s) = w1 @ rest s1" by auto
    moreover from 7(2)[of s1 s'] 2 obtain w2 where "rest s1 = w2 @ rest s'" by auto
    ultimately show ?thesis by (simp add: clear_def)
  qed
next
  case (8 ml r s)
  from 8(2) consider "s' = s" | "s' \<in> set (ms ml r (clear r s))" by auto
  then show ?case
  proof cases
    case 1 then show ?thesis by simp
  next
    case 2
    from 8(1)[OF 2] show ?thesis by (simp add: clear_def)
  qed
next
  case (9 ml n r s)
  from 9(2) obtain s1 where "s1 \<in> set (ms ml r s)"
    "s' = s1\<lparr>caps := (n, matched s s1) # caps s1\<rparr>" by auto
  with 9(1)[of s1] show ?case by auto
next
  case (10 ml s) then show ?case by (auto split: option.splits if_splits)
next
  case (11 ml s) then show ?case by (auto split: list.splits if_splits)
next
  case (12 ml s) then show ?case by (auto split: if_splits)
qed

lemma ms_length: "s' \<in> set (ms ml r s) \<Longrightarrow> length (rest s') \<le> length (rest s)"
  using ms_suffix[of s' ml r s] by auto

lemma search_bounds:
  "search ml r p s j = Some m \<Longrightarrow> j \<le> index m \<and> index m + length (text0 m) \<le> j + length s"
proof (induction s arbitrary: p j)
  case Nil
  then show ?case
    by (auto simp: matched_def split: list.splits)
next
  case (Cons c cs)
  show ?case
  proof (cases "ms ml r \<lparr>prev = p, rest = c # cs, caps = []\<rparr>")
    case Nil
    with Cons.prems have "search ml r (Some c) cs (Suc j) = Some m" by simp
    from Cons.IH[OF this] show ?thesis by simp
  next
    case (Cons s' ss)
    with Cons.prems show ?thesis by (auto simp: matched_def)
  qed
qed

lemma regexp_exec_bounds:
  "regexp_exec ml r src i = Some m \<Longrightarrow> i \<le> index m \<and> index m + length (text0 m) \<le> length src"
  using search_bounds[of ml r _ "drop i src" i m]
  by (auto simp: regexp_exec_def split: if_splits)

text \<open>
  The scanning loop \<open>while ((match = regex.exec(source)) !== null) { ... }\<close> of a
  regular expression with the \<open>g\<close> flag: each \<open>exec\<close> starts at \<open>lastIndex\<close>, the end
  of the match before.  A match that ends where the search started is empty and is found
  again for ever: the loop does not return, which is the value \<open>None\<close>.
\<close>

function exec_all :: "bool \<Rightarrow> regex \<Rightarrow> string \<Rightarrow> nat \<Rightarrow> rmatch list option" where
  "exec_all ml r src i =
     (case regexp_exec ml r src i of
        None \<Rightarrow> Some []
      | Some m \<Rightarrow>
          if match_end m \<le> i then None
          else map_option ((#) m) (exec_all ml r src (match_end m)))"
  by pat_completeness auto
termination
proof (relation "measure (\<lambda>(ml, r, src, i). length src - i)")
  show "wf (measure (\<lambda>(ml, r, src, i). length src - i))" by simp
next
  fix ml r src i m
  assume "regexp_exec ml r src i = Some m" "\<not> match_end m \<le> i"
  with regexp_exec_bounds[of ml r src i m]
  show "((ml, r, src, match_end m), (ml, r, src, i)) \<in> measure (\<lambda>(ml, r, src, i). length src - i)"
    by (auto simp: match_end_def)
qed

declare exec_all.simps [simp del]

text \<open>\<open>regex.test(s)\<close> and \<open>regex.exec(s)\<close> of a pattern without the \<open>g\<close> flag search from index 0.\<close>

definition regexp_test :: "bool \<Rightarrow> regex \<Rightarrow> string \<Rightarrow> bool" where
  "regexp_test ml r s = (regexp_exec ml r s 0 \<noteq> None)"

text \<open>
  \<open>s.split(regex)\<close> for a separator pattern without capturing groups: the separator is
  tried at each index in turn; a separator that is empty at the start of a piece is
  skipped, as in ECMAScript.
\<close>

function split_loop :: "regex \<Rightarrow> string \<Rightarrow> char option \<Rightarrow> string \<Rightarrow> string list" where
  "split_loop r piece p [] = [piece]"
| "split_loop r piece p (c # cs) =
     (case ms False r \<lparr>prev = p, rest = c # cs, caps = []\<rparr> of
        [] \<Rightarrow> split_loop r (piece @ [c]) (Some c) cs
      | s' # _ \<Rightarrow>
          if length (rest s') < length (c # cs)
          then piece # split_loop r [] (prev s') (rest s')
          else (if piece = [] then [] else [piece]) @ split_loop r [c] (Some c) cs)"
  by pat_completeness auto
termination
  by (relation "measure (\<lambda>(r, piece, p, s). length s)") auto

definition regex_split :: "regex \<Rightarrow> string \<Rightarrow> string list" where
  "regex_split r s =
     (if s = [] then (if ms False r \<lparr>prev = None, rest = [], caps = []\<rparr> = [] then [[]] else [])
      else split_loop r [] None s)"

text \<open>\<open>a || b\<close> on strings: the empty string is falsy.\<close>

definition or_else :: "string \<Rightarrow> string \<Rightarrow> string" where
  "or_else a b = (if a = [] then b else a)"

text \<open>\<open>match[n]\<close> of a group that takes part in every match of its pattern.\<close>

definition group_str :: "rmatch \<Rightarrow> nat \<Rightarrow> string" where
  "group_str m n = (case group m n of None \<Rightarrow> [] | Some w \<Rightarrow> w)"

section \<open>Symbol definitions (types.ts)\<close>

datatype SymbolKind = Function | Class | Method | Variable | Parameter | Import | Module

record SymbolDefinition =
  name :: string
  startLine :: int
  startColumn :: int
  endLine :: int
  endColumn :: int
  kind :: SymbolKind

text \<open>
  \<open>getLineColumn(source, index)\<close>, the same private method in both analyzers: the
  1-based line and column of an index, lines being separated by LF.
\<close>

definition getLineColumn :: "string \<Rightarrow> nat \<Rightarrow> int \<times> int" where
  "getLineColumn source i =
     (let beforeIndex = substring source 0 i;
          lines = split_on CHR ''\<newline>'' beforeIndex
      in (int (length lines), int (length (last lines)) + 1))"

text \<open>\<open>lines[line - 1]?.length || 1\<close>, the end column of an import definition.\<close>

definition line_length_or_1 :: "string list \<Rightarrow> int \<Rightarrow> int" where
  "line_length_or_1 lines line =
     (if 1 \<le> line \<and> nat (line - 1) < length lines
      then (if length (lines ! nat (line - 1)) = 0 then 1
            else int (length (lines ! nat (line - 1))))
      else 1)"

text \<open>
  The bound name of one entry of an import list, shared by the Python \<open>from\<close> import
  and the TypeScript named import: \<open>imp.trim().split(/\s+as\s+/)\<close>, then
  \<open>(parts[1] || parts[0]).trim()\<close>.
\<close>

definition AS_SEPARATOR :: regex where
  "AS_SEPARATOR = seqs [Plus space, lit ''as'', Plus space]"

definition IDENTIFIER :: regex where
  \<comment> \<open>\<open>/^\w+$/\<close>\<close>
  "IDENTIFIER = seqs [Bol, Plus word, Eol]"

definition import_entry_name :: "string \<Rightarrow> string" where
  "import_entry_name imp =
     (let parts = regex_split AS_SEPARATOR (trim imp)
      in trim (or_else (if 1 < length parts then parts ! 1 else []) (parts ! 0)))"

definition import_list_body ::
  "string list \<Rightarrow> int \<Rightarrow> string \<Rightarrow> SymbolDefinition list \<Rightarrow> SymbolDefinition list" where
  "import_list_body lines line imp definitions =
     (let name = import_entry_name imp
      in if name \<noteq> [] \<and> regexp_test False IDENTIFIER name
         then definitions @
           [\<lparr>name = name, startLine = line, startColumn = 1, endLine = line,
             endColumn = line_length_or_1 lines line, kind = Import\<rparr>]
         else definitions)"

section \<open>The Python analyzer (analyzers/python.ts)\<close>

definition PY_FUNCTION_DEF :: regex where
  \<comment> \<open>\<open>/^(\s*)def\s+(\w+)\s*\(/gm\<close>\<close>
  "PY_FUNCTION_DEF = seqs [Bol, Group 1 (Star space), lit ''def'', Plus space,
     Group 2 (Plus word), Star space, chr CHR ''('']"

definition PY_CLASS_DEF :: regex where
  \<comment> \<open>\<open>/^(\s*)class\s+(\w+)\s*[:(]/gm\<close>\<close>
  "PY_CLASS_DEF = seqs [Bol, Group 1 (Star space), lit ''class'', Plus space,
     Group 2 (Plus word), Star space, Cls [AChar CHR '':'', AChar CHR ''('']]"

definition PY_VARIABLE_ASSIGNMENT :: regex where
  \<comment> \<open>\<open>/^(\s*)(\w+)\s*(?::\s*\w+)?\s*=/gm\<close>\<close>
  "PY_VARIABLE_ASSIGNMENT = seqs [Bol, Group 1 (Star space), Group 2 (Plus word), Star space,
     Opt (seqs [chr CHR '':'', Star space, Plus word]), Star space, chr CHR ''='']"

definition PY_IMPORT_FROM :: regex where
  \<comment> \<open>\<open>/^from\s+([\w.]+)\s+import\s+(.+)$/gm\<close>\<close>
  "PY_IMPORT_FROM = seqs [Bol, lit ''from'', Plus space,
     Group 1 (Plus (Cls [AWord, AChar CHR ''.''])), Plus space, lit ''import'', Plus space,
     Group 2 (Plus Dot), Eol]"

definition PY_IMPORT_SIMPLE :: regex where
  \<comment> \<open>\<open>/^import\s+([\w.]+)(?:\s+as\s+(\w+))?$/gm\<close>\<close>
  "PY_IMPORT_SIMPLE = seqs [Bol, lit ''import'', Plus space,
     Group 1 (Plus (Cls [AWord, AChar CHR ''.''])),
     Opt (seqs [Plus space, lit ''as'', Plus space, Group 2 (Plus word)]), Eol]"

definition PY_PARAM_LIST :: regex where
  \<comment> \<open>\<open>/\(([^)]*)\)/\<close>\<close>
  "PY_PARAM_LIST = seqs [chr CHR ''('', Group 1 (Star (NCls [AChar CHR '')''])), chr CHR '')'']"

text \<open>
  The loop of \<open>findParameters\<close> over the pieces of the parameter string.  A piece that
  is empty, \<open>self\<close> or \<open>cls\<close> is skipped by \<open>continue\<close>, before \<open>colOffset\<close> is advanced.
\<close>

fun py_param_loop ::
  "string list \<Rightarrow> int \<Rightarrow> int \<Rightarrow> SymbolDefinition list \<Rightarrow> SymbolDefinition list" where
  "py_param_loop [] colOffset funcLine definitions = definitions"
| "py_param_loop (param # params) colOffset funcLine definitions =
     (let trimmed = trim param in
      if trimmed = [] \<or> trimmed = ''self'' \<or> trimmed = ''cls''
      then py_param_loop params colOffset funcLine definitions
      else
        let paramName = trim (hd (regex_split (Cls [AChar CHR ''='', AChar CHR '':'']) trimmed));
            paramStart = colOffset + indexOf param paramName + 1
        in py_param_loop params (colOffset + int (length param) + 1) funcLine
             (if paramName \<noteq> [] \<and> regexp_test False IDENTIFIER paramName
              then definitions @
                [\<lparr>name = paramName, startLine = funcLine, startColumn = paramStart,
                  endLine = funcLine, endColumn = paramStart + int (length paramName),
                  kind = Parameter\<rparr>]
              else definitions))"

definition py_findParameters ::
  "string \<Rightarrow> int \<Rightarrow> SymbolDefinition list \<Rightarrow> SymbolDefinition list" where
  "py_findParameters funcDef funcLine definitions =
     (case regexp_exec False PY_PARAM_LIST funcDef 0 of
        None \<Rightarrow> definitions
      | Some paramMatch \<Rightarrow>
          py_param_loop (split_on CHR '','' (group_str paramMatch 1))
            (indexOf funcDef ''('' + 1) funcLine definitions)"

text \<open>The body of the loop of \<open>findFunctions\<close> for one match, and the loop.\<close>

definition py_function_body ::
  "string \<Rightarrow> rmatch \<Rightarrow> SymbolDefinition list \<Rightarrow> SymbolDefinition list" where
  "py_function_body source m definitions =
     (let name = group_str m 2;
          nameStart = index m + length (group_str m 1) + 4;
          namePosition = getLineColumn source nameStart
      in py_findParameters (text0 m) (fst namePosition)
           (definitions @
             [\<lparr>name = name, startLine = fst namePosition, startColumn = snd namePosition,
               endLine = fst namePosition, endColumn = snd namePosition + int (length name),
               kind = Function\<rparr>]))"

definition py_findFunctions ::
  "string \<Rightarrow> string list \<Rightarrow> SymbolDefinition list \<Rightarrow> SymbolDefinition list option" where
  "py_findFunctions source lines definitions =
     map_option (\<lambda>matches. fold (py_function_body source) matches definitions)
       (exec_all True PY_FUNCTION_DEF source 0)"

definition py_class_body ::
  "string \<Rightarrow> rmatch \<Rightarrow> SymbolDefinition list \<Rightarrow> SymbolDefinition list" where
  "py_class_body source m definitions =
     (let name = group_str m 2;
          nameStart = index m + length (group_str m 1) + 6;
          namePosition = getLineColumn source nameStart
      in definitions @
           [\<lparr>name = name, startLine = fst namePosition, startColumn = snd namePosition,
             endLine = fst namePosition, endColumn = snd namePosition + int (length name),
             kind = Class\<rparr>])"

definition py_findClasses ::
  "string \<Rightarrow> string list \<Rightarrow> SymbolDefinition list \<Rightarrow> SymbolDefinition list option" where
  "py_findClasses source lines definitions =
     map_option (\<lambda>matches. fold (py_class_body source) matches definitions)
       (exec_all True PY_CLASS_DEF source 0)"

text \<open>
  \<open>findVariables\<close> keeps the set \<open>seenNames\<close> of the keys \<open>`${indent.length}:${name}`\<close>;
  the key is modelled as the pair of the indent length and the name, which the string
  determines and is determined by.  The loop state is that set and the definitions.
\<close>

definition py_variable_body ::
  "string \<Rightarrow> rmatch \<Rightarrow> (nat \<times> string) set \<times> SymbolDefinition list
     \<Rightarrow> (nat \<times> string) set \<times> SymbolDefinition list" where
  "py_variable_body source m st =
     (let seenNames = fst st; definitions = snd st;
          indent = group_str m 1;
          name = group_str m 2
      in if 4 < length indent then st
         else let key = (length indent, name)
         in if key \<in> seenNames then st
         else if startsWith name ''_'' \<and> name \<noteq> ''_'' then (insert key seenNames, definitions)
         else
           let nameStart = index m + length indent;
               namePosition = getLineColumn source nameStart
           in (insert key seenNames,
               definitions @
                 [\<lparr>name = name, startLine = fst namePosition, startColumn = snd namePosition,
                   endLine = fst namePosition,
                   endColumn = snd namePosition + int (length name), kind = Variable\<rparr>]))"

definition py_findVariables ::
  "string \<Rightarrow> string list \<Rightarrow> SymbolDefinition list \<Rightarrow> SymbolDefinition list option" where
  "py_findVariables source lines definitions =
     map_option (\<lambda>matches. snd (fold (py_variable_body source) matches ({}, definitions)))
       (exec_all True PY_VARIABLE_ASSIGNMENT source 0)"

definition py_import_from_body ::
  "string \<Rightarrow> string list \<Rightarrow> rmatch \<Rightarrow> SymbolDefinition list \<Rightarrow> SymbolDefinition list" where
  "py_import_from_body source lines m definitions =
     (let importList = group_str m 2;
          position = getLineColumn source (index m);
          imports = split_on CHR '','' importList
      in fold (import_list_body lines (fst position)) imports definitions)"

definition py_import_simple_body ::
  "string \<Rightarrow> string list \<Rightarrow> rmatch \<Rightarrow> SymbolDefinition list \<Rightarrow> SymbolDefinition list" where
  "py_import_simple_body source lines m definitions =
     (let moduleName =
            or_else (case group m 2 of None \<Rightarrow> [] | Some w \<Rightarrow> w)
              (or_else (last (split_on CHR ''.'' (group_str m 1))) (group_str m 1));
          position = getLineColumn source (index m)
      in definitions @
           [\<lparr>name = moduleName, startLine = fst position, startColumn = 1,
             endLine = fst position, endColumn = line_length_or_1 lines (fst position),
             kind = Import\<rparr>])"

definition py_findImports ::
  "string \<Rightarrow> string list \<Rightarrow> SymbolDefinition list \<Rightarrow> SymbolDefinition list option" where
  "py_findImports source lines definitions =
     (case exec_all True PY_IMPORT_FROM source 0 of
        None \<Rightarrow> None
      | Some fromMatches \<Rightarrow>
          map_option
            (\<lambda>simpleMatches.
               fold (py_import_simple_body source lines) simpleMatches
                 (fold (py_import_from_body source lines) fromMatches definitions))
            (exec_all True PY_IMPORT_SIMPLE source 0))"

definition py_findDefinitions :: "string \<Rightarrow> SymbolDefinition list option" where
  "py_findDefinitions source =
     (let lines = split_on CHR ''\<newline>'' source in
      case py_findFunctions source lines [] of
        None \<Rightarrow> None
      | Some d1 \<Rightarrow>
      (case py_findClasses source lines d1 of
        None \<Rightarrow> None
      | Some d2 \<Rightarrow>
      (case py_findVariables source lines d2 of
        None \<Rightarrow> None
      | Some d3 \<Rightarrow> py_findImports source lines d3)))"

text \<open>
  \<open>getSymbolAtPosition\<close> is word for word the same method in both analyzers; the model
  has one definition for each.  A match of \<open>/(\w*)$/\<close> or \<open>/^(\w*)/\<close> that fails
  would give \<open>null\<close>, and the word part of a \<open>null\<close> match is the empty string.
\<close>

definition WORD_AT_END :: regex where
  \<comment> \<open>\<open>/(\w*)$/\<close>\<close>
  "WORD_AT_END = seqs [Group 1 (Star word), Eol]"

definition WORD_AT_START :: regex where
  \<comment> \<open>\<open>/^(\w*)/\<close>\<close>
  "WORD_AT_START = seqs [Bol, Group 1 (Star word)]"

definition py_getSymbolAtPosition :: "string \<Rightarrow> int \<Rightarrow> int \<Rightarrow> string option" where
  "py_getSymbolAtPosition source line column =
     (let lines = split_on CHR ''\<newline>'' source in
      if line < 1 \<or> int (length lines) < line then None
      else
        let lineText = lines ! nat (line - 1) in
        if column < 1 \<or> int (length lineText) + 1 < column then None
        else
          let beforeCursor = substring lineText 0 (nat (column - 1));
              afterCursor = drop (nat (column - 1)) lineText;
              beforeMatch = regexp_exec False WORD_AT_END beforeCursor 0;
              afterMatch = regexp_exec False WORD_AT_START afterCursor 0
          in if beforeMatch = None \<and> afterMatch = None then None
             else
               let word = (case beforeMatch of None \<Rightarrow> [] | Some m \<Rightarrow> group_str m 1) @
                          (case afterMatch of None \<Rightarrow> [] | Some m \<Rightarrow> group_str m 1)
               in if word = [] then None else Some word)"

text \<open>
  \<open>getImportPath\<close> builds its patterns with \<open>new RegExp\<close> from the symbol name.  The name
  is taken as literal text, which is what the built pattern means for a name made of
  identifier characters, the only names \<open>getSymbolAtPosition\<close> returns.
\<close>

definition py_fromPattern :: "string \<Rightarrow> regex" where
  \<comment> \<open>\<open>^from\s+([\w.]+)\s+import\s+.*\bNAME\b\<close>\<close>
  "py_fromPattern symbolName = seqs [Bol, lit ''from'', Plus space,
     Group 1 (Plus (Cls [AWord, AChar CHR ''.''])), Plus space, lit ''import'', Plus space,
     Star Dot, WordB, lit symbolName, WordB]"

definition py_asPattern :: "string \<Rightarrow> regex" where
  \<comment> \<open>\<open>^import\s+([\w.]+)\s+as\s+NAME\b\<close>\<close>
  "py_asPattern symbolName = seqs [Bol, lit ''import'', Plus space,
     Group 1 (Plus (Cls [AWord, AChar CHR ''.''])), Plus space, lit ''as'', Plus space,
     lit symbolName, WordB]"

definition py_directPattern :: "string \<Rightarrow> regex" where
  \<comment> \<open>\<open>^import\s+((?:[\w.]*\.)?NAME)(?:\s|$)\<close>\<close>
  "py_directPattern symbolName = seqs [Bol, lit ''import'', Plus space,
     Group 1 (Seq (Opt (Seq (Star (Cls [AWord, AChar CHR ''.''])) (chr CHR ''.'')))
                  (lit symbolName)),
     Alt space Eol]"

definition py_getImportPath :: "string \<Rightarrow> string \<Rightarrow> string option" where
  "py_getImportPath source symbolName =
     (case regexp_exec True (py_fromPattern symbolName) source 0 of
        Some m \<Rightarrow> Some (group_str m 1)
      | None \<Rightarrow>
     (case regexp_exec True (py_asPattern symbolName) source 0 of
        Some m \<Rightarrow> Some (group_str m 1)
      | None \<Rightarrow>
     (case regexp_exec True (py_directPattern symbolName) source 0 of
        Some m \<Rightarrow> Some (group_str m 1)
      | None \<Rightarrow> None)))"

section \<open>The TypeScript/JavaScript analyzer (analyzers/typescript.ts)\<close>

text \<open>
  The patterns of the class.  \<open>METHOD_DECL\<close> is declared in the source and used by no
  method, so it has no counterpart here.
\<close>

definition export_opt :: regex where
  \<comment> \<open>\<open>(?:export\s+)?\<close>\<close>
  "export_opt = Opt (Seq (lit ''export'') (Plus space))"

definition const_let_var :: regex where
  \<comment> \<open>\<open>(?:const|let|var)\<close>\<close>
  "const_let_var = Alt (lit ''const'') (Alt (lit ''let'') (lit ''var''))"

definition type_annotation_opt :: regex where
  \<comment> \<open>\<open>(?::\s*[^=]+)?\<close>\<close>
  "type_annotation_opt = Opt (seqs [chr CHR '':'', Star space, Plus (NCls [AChar CHR ''=''])])"

definition quote :: regex where
  \<comment> \<open>\<open>['"]\<close>\<close>
  "quote = Cls [AChar (CHR 0x27), AChar (CHR 0x22)]"

definition from_module :: regex where
  \<comment> \<open>\<open>\s+from\s+['"]([^'"]+)['"]\<close>, the module being group 2\<close>
  "from_module = seqs [Plus space, lit ''from'', Plus space, quote,
     Group 2 (Plus (NCls [AChar (CHR 0x27), AChar (CHR 0x22)])), quote]"

definition TS_FUNCTION_DECL :: regex where
  \<comment> \<open>\<open>/^(\s*)(?:export\s+)?(?:async\s+)?function\s+(\w+)\s*[<(]/gm\<close>\<close>
  "TS_FUNCTION_DECL = seqs [Bol, Group 1 (Star space), export_opt,
     Opt (Seq (lit ''async'') (Plus space)), lit ''function'', Plus space,
     Group 2 (Plus word), Star space, Cls [AChar CHR ''<'', AChar CHR ''('']]"

definition TS_ARROW_FUNCTION :: regex where
  \<comment> \<open>\<open>/^(\s*)(?:export\s+)?(?:const|let|var)\s+(\w+)\s*(?::\s*[^=]+)?\s*=\s*(?:async\s+)?(?:\([^)]*\)|[\w]+)\s*=>/gm\<close>\<close>
  "TS_ARROW_FUNCTION = seqs [Bol, Group 1 (Star space), export_opt, const_let_var, Plus space,
     Group 2 (Plus word), Star space, type_annotation_opt, Star space, chr CHR ''='',
     Star space, Opt (Seq (lit ''async'') (Plus space)),
     Alt (seqs [chr CHR ''('', Star (NCls [AChar CHR '')'']), chr CHR '')'']) (Plus word),
     Star space, lit ''=>'']"

definition TS_CLASS_DECL :: regex where
  \<comment> \<open>\<open>/^(\s*)(?:export\s+)?(?:abstract\s+)?class\s+(\w+)/gm\<close>\<close>
  "TS_CLASS_DECL = seqs [Bol, Group 1 (Star space), export_opt,
     Opt (Seq (lit ''abstract'') (Plus space)), lit ''class'', Plus space,
     Group 2 (Plus word)]"

definition TS_INTERFACE_DECL :: regex where
  \<comment> \<open>\<open>/^(\s*)(?:export\s+)?interface\s+(\w+)/gm\<close>\<close>
  "TS_INTERFACE_DECL = seqs [Bol, Group 1 (Star space), export_opt, lit ''interface'',
     Plus space, Group 2 (Plus word)]"

definition TS_TYPE_DECL :: regex where
  \<comment> \<open>\<open>/^(\s*)(?:export\s+)?type\s+(\w+)/gm\<close>\<close>
  "TS_TYPE_DECL = seqs [Bol, Group 1 (Star space), export_opt, lit ''type'',
     Plus space, Group 2 (Plus word)]"

definition TS_VARIABLE_DECL :: regex where
  \<comment> \<open>\<open>/^(\s*)(?:export\s+)?(?:const|let|var)\s+(\w+)\s*(?::\s*[^=]+)?\s*=/gm\<close>\<close>
  "TS_VARIABLE_DECL = seqs [Bol, Group 1 (Star space), export_opt, const_let_var, Plus space,
     Group 2 (Plus word), Star space, type_annotation_opt, Star space, chr CHR ''='']"

definition TS_IMPORT_NAMED :: regex where
  \<comment> \<open>\<open>/^import\s+\{([^}]+)\}\s+from\s+['"]([^'"]+)['"]/gm\<close>\<close>
  "TS_IMPORT_NAMED = seqs [Bol, lit ''import'', Plus space, chr CHR ''{'',
     Group 1 (Plus (NCls [AChar CHR ''}''])), chr CHR ''}'', from_module]"

definition TS_IMPORT_DEFAULT :: regex where
  \<comment> \<open>\<open>/^import\s+(\w+)\s+from\s+['"]([^'"]+)['"]/gm\<close>\<close>
  "TS_IMPORT_DEFAULT = seqs [Bol, lit ''import'', Plus space, Group 1 (Plus word), from_module]"

definition TS_IMPORT_NAMESPACE :: regex where
  \<comment> \<open>\<open>/^import\s+\*\s+as\s+(\w+)\s+from\s+['"]([^'"]+)['"]/gm\<close>\<close>
  "TS_IMPORT_NAMESPACE = seqs [Bol, lit ''import'', Plus space, chr CHR ''*'', Plus space,
     lit ''as'', Plus space, Group 1 (Plus word), from_module]"

text \<open>
  \<open>findFunctions\<close>, \<open>findArrowFunctions\<close>, \<open>findClasses\<close>, \<open>findInterfaces\<close> and
  \<open>findTypes\<close> have the same loop body but for the kind: the line is the line of the
  start of the match, the column is one more than the index of the first occurrence of the
  name in the matched text.
\<close>

definition ts_name_body ::
  "SymbolKind \<Rightarrow> string \<Rightarrow> rmatch \<Rightarrow> SymbolDefinition list \<Rightarrow> SymbolDefinition list" where
  "ts_name_body k source m definitions =
     (let name = group_str m 2;
          position = getLineColumn source (index m);
          nameIndex = indexOf (text0 m) name
      in definitions @
           [\<lparr>name = name, startLine = fst position, startColumn = nameIndex + 1,
             endLine = fst position, endColumn = nameIndex + 1 + int (length name),
             kind = k\<rparr>])"

definition ts_findFunctions ::
  "string \<Rightarrow> string list \<Rightarrow> SymbolDefinition list \<Rightarrow> SymbolDefinition list option" where
  "ts_findFunctions source lines definitions =
     map_option (\<lambda>matches. fold (ts_name_body Function source) matches definitions)
       (exec_all True TS_FUNCTION_DECL source 0)"

definition ts_findArrowFunctions ::
  "string \<Rightarrow> string list \<Rightarrow> SymbolDefinition list \<Rightarrow> SymbolDefinition list option" where
  "ts_findArrowFunctions source lines definitions =
     map_option (\<lambda>matches. fold (ts_name_body Function source) matches definitions)
       (exec_all True TS_ARROW_FUNCTION source 0)"

definition ts_findClasses ::
  "string \<Rightarrow> string list \<Rightarrow> SymbolDefinition list \<Rightarrow> SymbolDefinition list option" where
  "ts_findClasses source lines definitions =
     map_option (\<lambda>matches. fold (ts_name_body Class source) matches definitions)
       (exec_all True TS_CLASS_DECL source 0)"

definition ts_findInterfaces ::
  "string \<Rightarrow> string list \<Rightarrow> SymbolDefinition list \<Rightarrow> SymbolDefinition list option" where
  "ts_findInterfaces source lines definitions =
     map_option (\<lambda>matches. fold (ts_name_body Class source) matches definitions)
       (exec_all True TS_INTERFACE_DECL source 0)"

definition ts_findTypes ::
  "string \<Rightarrow> string list \<Rightarrow> SymbolDefinition list \<Rightarrow> SymbolDefinition list option" where
  "ts_findTypes source lines definitions =
     map_option (\<lambda>matches. fold (ts_name_body Class source) matches definitions)
       (exec_all True TS_TYPE_DECL source 0)"

text \<open>
  \<open>findVariables\<close>: a match that contains \<open>=>\<close> or is indented by more than 4 is
  skipped; then the key of the indent length and the name is looked up in, and added
  to, \<open>seenNames\<close>.
\<close>

definition ts_variable_body ::
  "string \<Rightarrow> rmatch \<Rightarrow> (nat \<times> string) set \<times> SymbolDefinition list
     \<Rightarrow> (nat \<times> string) set \<times> SymbolDefinition list" where
  "ts_variable_body source m st =
     (let seenNames = fst st; definitions = snd st;
          indent = group_str m 1;
          name = group_str m 2
      in if str_includes (text0 m) ''=>'' then st
         else if 4 < length indent then st
         else let key = (length indent, name)
         in if key \<in> seenNames then st
         else (insert key seenNames, ts_name_body Variable source m definitions))"

definition ts_findVariables ::
  "string \<Rightarrow> string list \<Rightarrow> SymbolDefinition list \<Rightarrow> SymbolDefinition list option" where
  "ts_findVariables source lines definitions =
     map_option (\<lambda>matches. snd (fold (ts_variable_body source) matches ({}, definitions)))
       (exec_all True TS_VARIABLE_DECL source 0)"

definition ts_import_named_body ::
  "string \<Rightarrow> string list \<Rightarrow> rmatch \<Rightarrow> SymbolDefinition list \<Rightarrow> SymbolDefinition list" where
  "ts_import_named_body source lines m definitions =
     (let importList = group_str m 1;
          position = getLineColumn source (index m);
          imports = split_on CHR '','' importList
      in fold (import_list_body lines (fst position)) imports definitions)"

definition ts_import_body ::
  "string \<Rightarrow> string list \<Rightarrow> rmatch \<Rightarrow> SymbolDefinition list \<Rightarrow> SymbolDefinition list" where
  \<comment> \<open>the body of the loops for default and for namespace imports\<close>
  "ts_import_body source lines m definitions =
     (let name = group_str m 1;
          position = getLineColumn source (index m)
      in definitions @
           [\<lparr>name = name, startLine = fst position, startColumn = 1,
             endLine = fst position, endColumn = line_length_or_1 lines (fst position),
             kind = Import\<rparr>])"

definition ts_findImports ::
  "string \<Rightarrow> string list \<Rightarrow> SymbolDefinition list \<Rightarrow> SymbolDefinition list option" where
  "ts_findImports source lines definitions =
     (case exec_all True TS_IMPORT_NAMED source 0 of
        None \<Rightarrow> None
      | Some namedMatches \<Rightarrow>
     (case exec_all True TS_IMPORT_DEFAULT source 0 of
        None \<Rightarrow> None
      | Some defaultMatches \<Rightarrow>
          map_option
            (\<lambda>namespaceMatches.
               fold (ts_import_body source lines) namespaceMatches
                 (fold (ts_import_body source lines) defaultMatches
                   (fold (ts_import_named_body source lines) namedMatches definitions)))
            (exec_all True TS_IMPORT_NAMESPACE source 0)))"

definition ts_findDefinitions :: "string \<Rightarrow> SymbolDefinition list option" where
  "ts_findDefinitions source =
     (let lines = split_on CHR ''\<newline>'' source in
      case ts_findFunctions source lines [] of
        None \<Rightarrow> None
      | Some d1 \<Rightarrow>
      (case ts_findArrowFunctions source lines d1 of
        None \<Rightarrow> None
      | Some d2 \<Rightarrow>
      (case ts_findClasses source lines d2 of
        None \<Rightarrow> None
      | Some d3 \<Rightarrow>
      (case ts_findInterfaces source lines d3 of
        None \<Rightarrow> None
      | Some d4 \<Rightarrow>
      (case ts_findTypes source lines d4 of
        None \<Rightarrow> None
      | Some d5 \<Rightarrow>
      (case ts_findVariables source lines d5 of
        None \<Rightarrow> None
      | Some d6 \<Rightarrow> ts_findImports source lines d6))))))"

definition ts_getSymbolAtPosition :: "string \<Rightarrow> int \<Rightarrow> int \<Rightarrow> string option" where
  "ts_getSymbolAtPosition source line column =
     (let lines = split_on CHR ''\<newline>'' source in
      if line < 1 \<or> int (length lines) < line then None
      else
        let lineText = lines ! nat (line - 1) in
        if column < 1 \<or> int (length lineText) + 1 < column then None
        else
          let beforeCursor = substring lineText 0 (nat (column - 1));
              afterCursor = drop (nat (column - 1)) lineText;
              beforeMatch = regexp_exec False WORD_AT_END beforeCursor 0;
              afterMatch = regexp_exec False WORD_AT_START afterCursor 0
          in if beforeMatch = None \<and> afterMatch = None then None
             else
               let word = (case beforeMatch of None \<Rightarrow> [] | Some m \<Rightarrow> group_str m 1) @
                          (case afterMatch of None \<Rightarrow> [] | Some m \<Rightarrow> group_str m 1)
               in if word = [] then None else Some word)"

definition ts_namedPattern :: "string \<Rightarrow> regex" where
  \<comment> \<open>\<open>^import\s+\{[^}]*\bNAME\b[^}]*\}\s+from\s+['"]([^'"]+)['"]\<close>\<close>
  "ts_namedPattern symbolName = seqs [Bol, lit ''import'', Plus space, chr CHR ''{'',
     Star (NCls [AChar CHR ''}'']), WordB, lit symbolName, WordB,
     Star (NCls [AChar CHR ''}'']), chr CHR ''}'', Plus space, lit ''from'', Plus space, quote,
     Group 1 (Plus (NCls [AChar (CHR 0x27), AChar (CHR 0x22)])), quote]"

definition ts_defaultPattern :: "string \<Rightarrow> regex" where
  \<comment> \<open>\<open>^import\s+NAME\s+from\s+['"]([^'"]+)['"]\<close>\<close>
  "ts_defaultPattern symbolName = seqs [Bol, lit ''import'', Plus space, lit symbolName,
     Plus space, lit ''from'', Plus space, quote,
     Group 1 (Plus (NCls [AChar (CHR 0x27), AChar (CHR 0x22)])), quote]"

definition ts_namespacePattern :: "string \<Rightarrow> regex" where
  \<comment> \<open>\<open>^import\s+\*\s+as\s+NAME\s+from\s+['"]([^'"]+)['"]\<close>\<close>
  "ts_namespacePattern symbolName = seqs [Bol, lit ''import'', Plus space, chr CHR ''*'',
     Plus space, lit ''as'', Plus space, lit symbolName,
     Plus space, lit ''from'', Plus space, quote,
     Group 1 (Plus (NCls [AChar (CHR 0x27), AChar (CHR 0x22)])), quote]"

definition ts_getImportPath :: "string \<Rightarrow> string \<Rightarrow> string option" where
  "ts_getImportPath source symbolName =
     (case regexp_exec True (ts_namedPattern symbolName) source 0 of
        Some m \<Rightarrow> Some (group_str m 1)
      | None \<Rightarrow>
     (case regexp_exec True (ts_defaultPattern symbolName) source 0 of
        Some m \<Rightarrow> Some (group_str m 1)
      | None \<Rightarrow>
     (case regexp_exec True (ts_namespacePattern symbolName) source 0 of
        Some m \<Rightarrow> Some (group_str m 1)
      | None \<Rightarrow> None)))"

section \<open>The definition provider (DefinitionProvider.ts)\<close>

text \<open>
  The editor's objects are outside the repository and are modelled by what the provider
  reads from them.  A \<open>monaco.Uri\<close> is modelled by its string form, a \<open>monaco.Range\<close>
  by the four numbers given to its constructor (start line, start column, end line, end
  column), and \<open>monaco.Uri.parse\<close>, which may throw, is a parameter.
\<close>

type_synonym Range = "int \<times> int \<times> int \<times> int"

record Location =
  uri :: string
  range :: Range

record TextModel =
  languageId :: string
  getValue :: string
  model_uri :: string

record Position =
  lineNumber :: int
  column :: int

text \<open>
  The cancellation token is read at two points: before the definitions are extracted, and
  after the external navigation callback has been awaited.  Everything from the call of
  \<open>provideDefinition\<close> to the call of the callback runs without suspension, so the
  token's value at the first read is its value at the call; a token is never reset, so
  the second read gives \<open>True\<close> when cancellation was requested at the call or during
  the await.
\<close>

record CancellationToken =
  requested_at_call :: bool
  requested_during_await :: bool

datatype Error = CallbackFailure string | UriError

text \<open>
  What awaiting the promise of \<open>onExternalNavigation\<close> gives: a result (\<open>None\<close> is
  \<open>null\<close>), a failure (the callback throws or its promise is rejected), or nothing at
  all, when the promise is never settled.
\<close>

type_synonym DefinitionResult = Location

datatype NavigationOutcome = Resolved "DefinitionResult option" | Rejected string | Pending

type_synonym ExternalNavigationCallback = "string \<Rightarrow> string \<Rightarrow> string \<Rightarrow> NavigationOutcome"

record DefinitionProviderOptions =
  onExternalNavigation :: "ExternalNavigationCallback option"
  includeBuiltins :: "bool option"

text \<open>
  A language analyzer is any implementation of the three methods; \<open>findDefinitions\<close>
  gives \<open>None\<close> when it does not return.
\<close>

record LanguageAnalyzer =
  findDefinitions :: "string \<Rightarrow> SymbolDefinition list option"
  getSymbolAtPosition :: "string \<Rightarrow> int \<Rightarrow> int \<Rightarrow> string option"
  getImportPath :: "string \<Rightarrow> string \<Rightarrow> string option"

definition PythonAnalyzer :: LanguageAnalyzer where
  "PythonAnalyzer = \<lparr>findDefinitions = py_findDefinitions,
     getSymbolAtPosition = py_getSymbolAtPosition, getImportPath = py_getImportPath\<rparr>"

definition TypeScriptAnalyzer :: LanguageAnalyzer where
  "TypeScriptAnalyzer = \<lparr>findDefinitions = ts_findDefinitions,
     getSymbolAtPosition = ts_getSymbolAtPosition, getImportPath = ts_getImportPath\<rparr>"

text \<open>
  The provider's fields.  A disposable is the handle that
  \<open>monaco.languages.registerDefinitionProvider\<close> returns, modelled by a number.
\<close>

record DefinitionProvider =
  options :: DefinitionProviderOptions
  analyzers :: "string \<rightharpoonup> LanguageAnalyzer"
  disposables :: "nat list"

definition new_DefinitionProvider :: "DefinitionProviderOptions \<Rightarrow> DefinitionProvider" where
  "new_DefinitionProvider opts =
     \<lparr>options = opts,
      analyzers = [''python'' \<mapsto> PythonAnalyzer, ''typescript'' \<mapsto> TypeScriptAnalyzer,
                   ''javascript'' \<mapsto> TypeScriptAnalyzer],
      disposables = []\<rparr>"

definition register :: "DefinitionProvider \<Rightarrow> string \<Rightarrow> nat \<Rightarrow> DefinitionProvider" where
  \<comment> \<open>\<open>disposable\<close> is what the editor returns for the registration of \<open>lang\<close>\<close>
  "register this lang disposable = this\<lparr>disposables := disposables this @ [disposable]\<rparr>"

definition registerAnalyzer ::
  "DefinitionProvider \<Rightarrow> string \<Rightarrow> LanguageAnalyzer \<Rightarrow> DefinitionProvider" where
  "registerAnalyzer this lang analyzer = this\<lparr>analyzers := (analyzers this)(lang \<mapsto> analyzer)\<rparr>"

text \<open>
  The calls the provider makes on its collaborators are recorded, in order, next to the
  result, so that a statement that a collaborator is not called can be made.
\<close>

datatype Event =
    CallGetSymbolAtPosition
  | CallFindDefinitions
  | CallGetImportPath
  | CallExternalNavigation string string string
  | ConsoleError Error
  | CallDispose nat

text \<open>What a call does: return a value, throw, or never return.\<close>

datatype 'a Outcome = Returns 'a | Throws Error | NeverReturns

definition findMatchingDefinition ::
  "SymbolDefinition list \<Rightarrow> string \<Rightarrow> SymbolDefinition option" where
  "findMatchingDefinition definitions symbolName =
     (case find (\<lambda>d. name d = symbolName \<and> kind d \<noteq> Import) definitions of
        Some nonImportDef \<Rightarrow> Some nonImportDef
      | None \<Rightarrow> find (\<lambda>d. name d = symbolName) definitions)"

definition location_of :: "string \<Rightarrow> SymbolDefinition \<Rightarrow> Location" where
  "location_of u d = \<lparr>uri = u, range = (startLine d, startColumn d, endLine d, endColumn d)\<rparr>"

text \<open>
  The body of the \<open>try\<close> block: the callback is called and awaited, and a result is
  returned when there is one and cancellation has not been requested.  \<open>Returns None\<close>
  stands for leaving the block without a \<open>return\<close>.
\<close>

definition try_external_navigation ::
  "(string \<Rightarrow> string option) \<Rightarrow> ExternalNavigationCallback \<Rightarrow> string \<Rightarrow> string \<Rightarrow> string
     \<Rightarrow> CancellationToken \<Rightarrow> Location option Outcome" where
  "try_external_navigation Uri_parse callback symbolName importPath currentUri token =
     (case callback symbolName importPath currentUri of
        Rejected reason \<Rightarrow> Throws (CallbackFailure reason)
      | Pending \<Rightarrow> NeverReturns
      | Resolved None \<Rightarrow> Returns None
      | Resolved (Some externalDef) \<Rightarrow>
          if \<not> (requested_at_call token \<or> requested_during_await token)
          then (case Uri_parse (uri externalDef) of
                  None \<Rightarrow> Throws UriError
                | Some u \<Rightarrow> Returns (Some \<lparr>uri = u, range = range externalDef\<rparr>))
          else Returns None)"

definition provideDefinition ::
  "(string \<Rightarrow> string option) \<Rightarrow> DefinitionProvider \<Rightarrow> TextModel \<Rightarrow> Position
     \<Rightarrow> CancellationToken \<Rightarrow> Location option Outcome \<times> Event list" where
  "provideDefinition Uri_parse this model position token =
     (case analyzers this (languageId model) of
        None \<Rightarrow> (Returns None, [])
      | Some analyzer \<Rightarrow>
     (let source = getValue model in
      case getSymbolAtPosition analyzer source (lineNumber position) (column position) of
        None \<Rightarrow> (Returns None, [CallGetSymbolAtPosition])
      | Some symbolName \<Rightarrow>
     (if symbolName = [] then (Returns None, [CallGetSymbolAtPosition])
      else if requested_at_call token then (Returns None, [CallGetSymbolAtPosition])
      else
      (case findDefinitions analyzer source of
        None \<Rightarrow> (NeverReturns, [CallGetSymbolAtPosition, CallFindDefinitions])
      | Some definitions \<Rightarrow>
      (case findMatchingDefinition definitions symbolName of
        Some localDefinition \<Rightarrow>
          (Returns (Some (location_of (model_uri model) localDefinition)),
           [CallGetSymbolAtPosition, CallFindDefinitions])
      | None \<Rightarrow>
      (case (getImportPath analyzer source symbolName, onExternalNavigation (options this)) of
        (Some importPath, Some callback) \<Rightarrow>
          if importPath = []
          then (Returns None, [CallGetSymbolAtPosition, CallFindDefinitions, CallGetImportPath])
          else
            (case try_external_navigation Uri_parse callback symbolName importPath
                    (model_uri model) token of
               Throws error \<Rightarrow>
                 (Returns None,
                  [CallGetSymbolAtPosition, CallFindDefinitions, CallGetImportPath,
                   CallExternalNavigation symbolName importPath (model_uri model),
                   ConsoleError error])
             | outcome \<Rightarrow>
                 (outcome,
                  [CallGetSymbolAtPosition, CallFindDefinitions, CallGetImportPath,
                   CallExternalNavigation symbolName importPath (model_uri model)]))
      | _ \<Rightarrow> (Returns None, [CallGetSymbolAtPosition, CallFindDefinitions, CallGetImportPath])))))))"

text \<open>
  \<open>dispose\<close> disposes every registered handle, empties the list and clears the
  registry.
\<close>

definition dispose :: "DefinitionProvider \<Rightarrow> DefinitionProvider \<times> Event list" where
  "dispose this =
     (this\<lparr>disposables := [], analyzers := Map.empty\<rparr>, map CallDispose (disposables this))"

section \<open>The scanning loops return\<close>

text \<open>
  A lower bound on the length of a match, read off the pattern.  Every pattern the
  scanners loop over has a keyword or a name in it, so none of them has an empty match and
  every scanning loop returns.
\<close>

fun min_len :: "regex \<Rightarrow> nat" where
  "min_len Dot = 1"
| "min_len (Cls as) = 1"
| "min_len (NCls as) = 1"
| "min_len (Seq a b) = min_len a + min_len b"
| "min_len (Alt a b) = min (min_len a) (min_len b)"
| "min_len (Group n r) = min_len r"
| "min_len _ = 0"

lemma step_min_len: "s' \<in> set (step P s) \<Longrightarrow> Suc (length (rest s')) \<le> length (rest s)"
  using step_suffix[of s' P s] by auto

lemma ms_min_len:
  "s' \<in> set (ms ml r s) \<Longrightarrow> length (rest s') + min_len r \<le> length (rest s)"
proof (induction r arbitrary: s s')
  case (Seq a b)
  from Seq.prems obtain s1 where s1: "s1 \<in> set (ms ml a s)" and s': "s' \<in> set (ms ml b s1)"
    by auto
  from Seq.IH(1)[OF s1] Seq.IH(2)[OF s'] show ?case by simp
next
  case (Alt a b)
  from Alt.prems consider "s' \<in> set (ms ml a s)" | "s' \<in> set (ms ml b s)" by auto
  then show ?case
  proof cases
    case 1 from Alt.IH(1)[OF 1] show ?thesis by simp
  next
    case 2 from Alt.IH(2)[OF 2] show ?thesis by simp
  qed
next
  case (Group n r)
  from Group.prems obtain s1 where "s1 \<in> set (ms ml r s)"
    "s' = s1\<lparr>caps := (n, matched s s1) # caps s1\<rparr>" by auto
  with Group.IH[of s1 s] show ?case by auto
next
  case (Star r)
  from ms_length[OF Star.prems] show ?case by simp
next
  case (Opt r)
  from ms_length[OF Opt.prems] show ?case by simp
qed (use step_min_len in \<open>auto split: option.splits list.splits if_splits\<close>)

lemma search_min_len:
  "search ml r p s j = Some m \<Longrightarrow> min_len r \<le> length (text0 m)"
proof (induction s arbitrary: p j)
  case Nil
  then show ?case
  proof (cases "ms ml r \<lparr>prev = p, rest = [], caps = []\<rparr>")
    case Nil with Nil.prems show ?thesis by simp
  next
    case (Cons s' ss)
    then have "s' \<in> set (ms ml r \<lparr>prev = p, rest = [], caps = []\<rparr>)" by simp
    from ms_min_len[OF this] Cons Nil.prems show ?thesis by (auto simp: matched_def)
  qed
next
  case (Cons c cs)
  show ?case
  proof (cases "ms ml r \<lparr>prev = p, rest = c # cs, caps = []\<rparr>")
    case Nil
    with Cons.prems have "search ml r (Some c) cs (Suc j) = Some m" by simp
    from Cons.IH[OF this] show ?thesis .
  next
    case (Cons s' ss)
    then have "s' \<in> set (ms ml r \<lparr>prev = p, rest = c # cs, caps = []\<rparr>)" by simp
    from ms_min_len[OF this] ms_length[OF this] Cons Cons.prems
    show ?thesis by (auto simp: matched_def)
  qed
qed

lemma regexp_exec_min_len:
  "regexp_exec ml r src i = Some m \<Longrightarrow> min_len r \<le> length (text0 m)"
  using search_min_len[of ml r _ "drop i src" i m]
  by (auto simp: regexp_exec_def split: if_splits)

lemma exec_all_total:
  "0 < min_len r \<Longrightarrow> \<exists>matches. exec_all ml r src i = Some matches"
proof (induction ml r src i rule: exec_all.induct)
  case (1 ml r src i)
  show ?case
  proof (cases "regexp_exec ml r src i")
    case None
    then show ?thesis by (simp add: exec_all.simps[of ml r src i])
  next
    case (Some m)
    from regexp_exec_bounds[OF Some] regexp_exec_min_len[OF Some] "1.prems"
    have gt: "\<not> match_end m \<le> i" by (simp add: match_end_def)
    from "1.IH"[OF Some gt "1.prems"] obtain rest where
      "exec_all ml r src (match_end m) = Some rest"
      by blast
    with Some gt show ?thesis by (simp add: exec_all.simps[of ml r src i])
  qed
qed

lemma min_len_seqs: "min_len (seqs rs) = sum_list (map min_len rs)"
  by (induction rs rule: seqs.induct) auto

lemma min_len_lit: "min_len (lit w) = length w"
  by (induction w) (auto simp: lit_def chr_def min_len_seqs)

lemma min_len_Plus: "min_len (Plus r) = min_len r"
  by (simp add: Plus_def)

lemma py_patterns_nonempty:
  "0 < min_len PY_FUNCTION_DEF" "0 < min_len PY_CLASS_DEF" "0 < min_len PY_VARIABLE_ASSIGNMENT"
  "0 < min_len PY_IMPORT_FROM" "0 < min_len PY_IMPORT_SIMPLE"
  by (simp_all add: PY_FUNCTION_DEF_def PY_CLASS_DEF_def PY_VARIABLE_ASSIGNMENT_def
        PY_IMPORT_FROM_def PY_IMPORT_SIMPLE_def min_len_seqs min_len_lit min_len_Plus
        word_def space_def chr_def)

lemma ts_patterns_nonempty:
  "0 < min_len TS_FUNCTION_DECL" "0 < min_len TS_ARROW_FUNCTION" "0 < min_len TS_CLASS_DECL"
  "0 < min_len TS_INTERFACE_DECL" "0 < min_len TS_TYPE_DECL" "0 < min_len TS_VARIABLE_DECL"
  "0 < min_len TS_IMPORT_NAMED" "0 < min_len TS_IMPORT_DEFAULT" "0 < min_len TS_IMPORT_NAMESPACE"
  by (simp_all add: TS_FUNCTION_DECL_def TS_ARROW_FUNCTION_def TS_CLASS_DECL_def
        TS_INTERFACE_DECL_def TS_TYPE_DECL_def TS_VARIABLE_DECL_def TS_IMPORT_NAMED_def
        TS_IMPORT_DEFAULT_def TS_IMPORT_NAMESPACE_def min_len_seqs min_len_lit min_len_Plus
        word_def space_def chr_def)

section \<open>The spans of the emitted definitions\<close>

text \<open>
  What the scanners do for a span: a definition is on one line; an import definition
  spans its whole source line, from column 1 to the length of the line (1 for an empty
  line); any other definition ends \<open>length name\<close> columns after its start.
\<close>

definition span_by_design :: "string \<Rightarrow> SymbolDefinition \<Rightarrow> bool" where
  "span_by_design source d =
     (startLine d = endLine d \<and>
      (if kind d = Import
       then startColumn d = 1 \<and>
            endColumn d = line_length_or_1 (split_on CHR ''\<newline>'' source) (startLine d)
       else endColumn d = startColumn d + int (length (name d))))"

lemma fold_list_all:
  assumes "\<And>x ds. list_all P ds \<Longrightarrow> list_all P (f x ds)" and "list_all P ds"
  shows "list_all P (fold f xs ds)"
  using assms(2) by (induction xs arbitrary: ds) (auto intro: assms(1))

lemma fold_snd_list_all:
  assumes "\<And>x st. list_all P (snd st) \<Longrightarrow> list_all P (snd (f x st))" and "list_all P (snd st)"
  shows "list_all P (snd (fold f xs st))"
  using assms(2)
proof (induction xs arbitrary: st)
  case Nil
  then show ?case by simp
next
  case (Cons x xs)
  from Cons.IH[OF assms(1)[OF Cons.prems]] show ?case by simp
qed

lemma py_param_loop_span:
  "list_all (span_by_design source) ds \<Longrightarrow>
   list_all (span_by_design source) (py_param_loop params colOffset funcLine ds)"
  by (induction params colOffset funcLine ds rule: py_param_loop.induct)
     (auto simp: Let_def span_by_design_def)

lemma py_findParameters_span:
  "list_all (span_by_design source) ds \<Longrightarrow>
   list_all (span_by_design source) (py_findParameters funcDef funcLine ds)"
  by (auto simp: py_findParameters_def py_param_loop_span split: option.splits)

lemma py_function_body_span:
  "list_all (span_by_design source) ds \<Longrightarrow>
   list_all (span_by_design source) (py_function_body source m ds)"
  unfolding py_function_body_def Let_def
  by (rule py_findParameters_span) (simp add: span_by_design_def)

lemma py_class_body_span:
  "list_all (span_by_design source) ds \<Longrightarrow>
   list_all (span_by_design source) (py_class_body source m ds)"
  by (simp add: py_class_body_def Let_def span_by_design_def)

lemma py_variable_body_span:
  "list_all (span_by_design source) (snd st) \<Longrightarrow>
   list_all (span_by_design source) (snd (py_variable_body source m st))"
  by (simp add: py_variable_body_def Let_def span_by_design_def)

lemma import_list_body_span:
  "list_all (span_by_design source) ds \<Longrightarrow>
   list_all (span_by_design source)
     (import_list_body (split_on CHR ''\<newline>'' source) line imp ds)"
  by (simp add: import_list_body_def Let_def span_by_design_def)

lemma py_import_from_body_span:
  "list_all (span_by_design source) ds \<Longrightarrow>
   list_all (span_by_design source)
     (py_import_from_body source (split_on CHR ''\<newline>'' source) m ds)"
  unfolding py_import_from_body_def Let_def
  by (rule fold_list_all) (auto intro: import_list_body_span)

lemma py_import_simple_body_span:
  "list_all (span_by_design source) ds \<Longrightarrow>
   list_all (span_by_design source)
     (py_import_simple_body source (split_on CHR ''\<newline>'' source) m ds)"
  by (simp add: py_import_simple_body_def Let_def span_by_design_def)

lemma py_findDefinitions_span:
  assumes "py_findDefinitions source = Some ds"
  shows "list_all (span_by_design source) ds"
proof -
  let ?lines = "split_on CHR ''\<newline>'' source"
  let ?P = "span_by_design source"
  from assms obtain d1 d2 d3 where
    1: "py_findFunctions source ?lines [] = Some d1" and
    2: "py_findClasses source ?lines d1 = Some d2" and
    3: "py_findVariables source ?lines d2 = Some d3" and
    4: "py_findImports source ?lines d3 = Some ds"
    by (auto simp: py_findDefinitions_def Let_def split: option.splits)
  from 1 have p1: "list_all ?P d1"
    by (auto simp: py_findFunctions_def intro!: fold_list_all py_function_body_span)
  from 2 p1 have p2: "list_all ?P d2"
    by (auto simp: py_findClasses_def intro!: fold_list_all py_class_body_span)
  from 3 obtain matches where
    "d3 = snd (fold (py_variable_body source) matches ({}, d2))"
    by (auto simp: py_findVariables_def)
  with p2 have p3: "list_all ?P d3"
    by (auto intro!: fold_snd_list_all py_variable_body_span)
  from 4 obtain ms1 ms2 where
    "ds = fold (py_import_simple_body source ?lines) ms2
            (fold (py_import_from_body source ?lines) ms1 d3)"
    by (auto simp: py_findImports_def split: option.splits)
  with p3 show ?thesis
    by (auto intro!: fold_list_all py_import_simple_body_span py_import_from_body_span)
qed

lemma ts_name_body_span:
  "k \<noteq> Import \<Longrightarrow> list_all (span_by_design source) ds \<Longrightarrow>
   list_all (span_by_design source) (ts_name_body k source m ds)"
  by (simp add: ts_name_body_def Let_def span_by_design_def)

lemma ts_variable_body_span:
  "list_all (span_by_design source) (snd st) \<Longrightarrow>
   list_all (span_by_design source) (snd (ts_variable_body source m st))"
  by (simp add: ts_variable_body_def Let_def ts_name_body_span)

lemma ts_import_named_body_span:
  "list_all (span_by_design source) ds \<Longrightarrow>
   list_all (span_by_design source)
     (ts_import_named_body source (split_on CHR ''\<newline>'' source) m ds)"
  unfolding ts_import_named_body_def Let_def
  by (rule fold_list_all) (auto intro: import_list_body_span)

lemma ts_import_body_span:
  "list_all (span_by_design source) ds \<Longrightarrow>
   list_all (span_by_design source)
     (ts_import_body source (split_on CHR ''\<newline>'' source) m ds)"
  by (simp add: ts_import_body_def Let_def span_by_design_def)

lemma ts_findDefinitions_span:
  assumes "ts_findDefinitions source = Some ds"
  shows "list_all (span_by_design source) ds"
proof -
  let ?lines = "split_on CHR ''\<newline>'' source"
  let ?P = "span_by_design source"
  from assms obtain d1 d2 d3 d4 d5 d6 where
    1: "ts_findFunctions source ?lines [] = Some d1" and
    2: "ts_findArrowFunctions source ?lines d1 = Some d2" and
    3: "ts_findClasses source ?lines d2 = Some d3" and
    4: "ts_findInterfaces source ?lines d3 = Some d4" and
    5: "ts_findTypes source ?lines d4 = Some d5" and
    6: "ts_findVariables source ?lines d5 = Some d6" and
    7: "ts_findImports source ?lines d6 = Some ds"
    by (auto simp: ts_findDefinitions_def Let_def split: option.splits)
  from 1 have p1: "list_all ?P d1"
    by (auto simp: ts_findFunctions_def intro!: fold_list_all ts_name_body_span)
  from 2 p1 have p2: "list_all ?P d2"
    by (auto simp: ts_findArrowFunctions_def intro!: fold_list_all ts_name_body_span)
  from 3 p2 have p3: "list_all ?P d3"
    by (auto simp: ts_findClasses_def intro!: fold_list_all ts_name_body_span)
  from 4 p3 have p4: "list_all ?P d4"
    by (auto simp: ts_findInterfaces_def intro!: fold_list_all ts_name_body_span)
  from 5 p4 have p5: "list_all ?P d5"
    by (auto simp: ts_findTypes_def intro!: fold_list_all ts_name_body_span)
  from 6 obtain matches where
    "d6 = snd (fold (ts_variable_body source) matches ({}, d5))"
    by (auto simp: ts_findVariables_def)
  with p5 have p6: "list_all ?P d6"
    by (auto intro!: fold_snd_list_all ts_variable_body_span)
  from 7 obtain ms1 ms2 ms3 where
    "ds = fold (ts_import_body source ?lines) ms3
            (fold (ts_import_body source ?lines) ms2
              (fold (ts_import_named_body source ?lines) ms1 d6))"
    by (auto simp: ts_findImports_def split: option.splits)
  with p6 show ?thesis
    by (auto intro!: fold_list_all ts_import_body_span ts_import_named_body_span)
qed

lemma py_findDefinitions_total: "\<exists>ds. py_findDefinitions source = Some ds"
proof -
  let ?lines = "split_on CHR ''\<newline>'' source"
  have a: "\<And>P. 0 < min_len P \<Longrightarrow> \<exists>ms. exec_all True P source 0 = Some ms"
    by (rule exec_all_total)
  from a[OF py_patterns_nonempty(1)] have "\<And>ds. \<exists>d. py_findFunctions source ?lines ds = Some d"
    by (auto simp: py_findFunctions_def)
  moreover
  from a[OF py_patterns_nonempty(2)] have "\<And>ds. \<exists>d. py_findClasses source ?lines ds = Some d"
    by (auto simp: py_findClasses_def)
  moreover
  from a[OF py_patterns_nonempty(3)] have "\<And>ds. \<exists>d. py_findVariables source ?lines ds = Some d"
    by (auto simp: py_findVariables_def)
  moreover
  from a[OF py_patterns_nonempty(4)] a[OF py_patterns_nonempty(5)]
  have "\<And>ds. \<exists>d. py_findImports source ?lines ds = Some d"
    by (auto simp: py_findImports_def)
  ultimately show ?thesis
    unfolding py_findDefinitions_def Let_def
    by (metis option.simps(5))
qed

lemma ts_findDefinitions_total: "\<exists>ds. ts_findDefinitions source = Some ds"
proof -
  let ?lines = "split_on CHR ''\<newline>'' source"
  have a: "\<And>P. 0 < min_len P \<Longrightarrow> \<exists>ms. exec_all True P source 0 = Some ms"
    by (rule exec_all_total)
  from a[OF ts_patterns_nonempty(1)] have "\<And>ds. \<exists>d. ts_findFunctions source ?lines ds = Some d"
    by (auto simp: ts_findFunctions_def)
  moreover
  from a[OF ts_patterns_nonempty(2)]
  have "\<And>ds. \<exists>d. ts_findArrowFunctions source ?lines ds = Some d"
    by (auto simp: ts_findArrowFunctions_def)
  moreover
  from a[OF ts_patterns_nonempty(3)] have "\<And>ds. \<exists>d. ts_findClasses source ?lines ds = Some d"
    by (auto simp: ts_findClasses_def)
  moreover
  from a[OF ts_patterns_nonempty(4)] have "\<And>ds. \<exists>d. ts_findInterfaces source ?lines ds = Some d"
    by (auto simp: ts_findInterfaces_def)
  moreover
  from a[OF ts_patterns_nonempty(5)] have "\<And>ds. \<exists>d. ts_findTypes source ?lines ds = Some d"
    by (auto simp: ts_findTypes_def)
  moreover
  from a[OF ts_patterns_nonempty(6)] have "\<And>ds. \<exists>d. ts_findVariables source ?lines ds = Some d"
    by (auto simp: ts_findVariables_def)
  moreover
  from a[OF ts_patterns_nonempty(7)] a[OF ts_patterns_nonempty(8)]
       a[OF ts_patterns_nonempty(9)]
  have "\<And>ds. \<exists>d. ts_findImports source ?lines ds = Some d"
    by (auto simp: ts_findImports_def)
  ultimately show ?thesis
    unfolding ts_findDefinitions_def Let_def
    by (metis option.simps(5))
qed

section \<open>Where the span is the name: Python variables\<close>

text \<open>
  The text at a span: the part of the line \<open>startLine\<close> from \<open>startColumn\<close> up to, not
  including, \<open>endColumn\<close>, when the span is on one line and inside it.
\<close>

definition span_text :: "string \<Rightarrow> SymbolDefinition \<Rightarrow> string option" where
  "span_text source d =
     (let lines = split_on CHR ''\<newline>'' source in
      if startLine d = endLine d \<and> 1 \<le> startLine d \<and> startLine d \<le> int (length lines) \<and>
         1 \<le> startColumn d \<and> startColumn d \<le> endColumn d \<and>
         endColumn d \<le> int (length (lines ! nat (startLine d - 1))) + 1
      then Some (substring (lines ! nat (startLine d - 1))
                   (nat (startColumn d - 1)) (nat (endColumn d - 1)))
      else None)"

text \<open>Lines and indices.\<close>

lemma split_on_nonempty: "split_on c xs \<noteq> []"
  by (induction xs) (auto split: list.splits)

lemma hd_split_on: "hd (split_on c xs) = takeWhile (\<lambda>x. x \<noteq> c) xs"
proof (induction xs)
  case Nil
  then show ?case by simp
next
  case (Cons x xs)
  with split_on_nonempty[of c xs] show ?case
    by (cases "split_on c xs") auto
qed

lemma split_on_append:
  "split_on c (xs @ ys) =
     butlast (split_on c xs) @ (last (split_on c xs) @ hd (split_on c ys)) # tl (split_on c ys)"
proof (induction xs)
  case Nil
  then show ?case using split_on_nonempty[of c ys] by (cases "split_on c ys") auto
next
  case (Cons x xs)
  show ?case
  proof (cases "x = c")
    case True
    with Cons split_on_nonempty[of c xs] show ?thesis by simp
  next
    case False
    obtain l ls where ls: "split_on c xs = l # ls"
      using split_on_nonempty[of c xs] by (cases "split_on c xs") auto
    show ?thesis
    proof (cases ls)
      case Nil
      with False ls Cons show ?thesis by (simp split: list.splits)
    next
      case (Cons l' ls')
      with False ls Cons.IH show ?thesis by (simp split: list.splits)
    qed
  qed
qed

lemma line_at_index:
  assumes "k \<le> length source"
  shows "split_on c source ! (length (split_on c (take k source)) - 1) =
           last (split_on c (take k source)) @ takeWhile (\<lambda>x. x \<noteq> c) (drop k source)"
    and "length (split_on c (take k source)) \<le> length (split_on c source)"
proof -
  let ?L = "split_on c (take k source)"
  have "split_on c source = split_on c (take k source @ drop k source)" by simp
  also have "\<dots> = butlast ?L @ (last ?L @ hd (split_on c (drop k source)))
                     # tl (split_on c (drop k source))"
    by (rule split_on_append)
  finally have eq: "split_on c source = butlast ?L @
      (last ?L @ takeWhile (\<lambda>x. x \<noteq> c) (drop k source)) # tl (split_on c (drop k source))"
    by (simp add: hd_split_on)
  have len: "length (butlast ?L) = length ?L - 1" by simp
  show "split_on c source ! (length ?L - 1) =
           last ?L @ takeWhile (\<lambda>x. x \<noteq> c) (drop k source)"
    by (subst eq) (simp add: nth_append)
  from split_on_nonempty[of c "take k source"] have "0 < length ?L" by simp
  then show "length ?L \<le> length (split_on c source)"
    by (subst eq) simp
qed

text \<open>
  A name at an index: when the text from index \<open>k\<close> on starts with \<open>w\<close> and \<open>w\<close> has
  no line feed, the span from \<open>getLineColumn source k\<close>, \<open>length w\<close> columns long,
  holds \<open>w\<close>.
\<close>

lemma span_text_at_index:
  assumes "drop k source = w @ after" and "CHR ''\<newline>'' \<notin> set w" and "k \<le> length source"
    and "getLineColumn source k = (line, col)"
    and "startLine d = line" "endLine d = line" "startColumn d = col"
    and "endColumn d = col + int (length w)"
  shows "span_text source d = Some w"
proof -
  let ?c = "CHR ''\<newline>''"
  let ?L = "split_on ?c (take k source)"
  from assms(4) have line: "line = int (length ?L)" and col: "col = int (length (last ?L)) + 1"
    by (auto simp: getLineColumn_def substring_def Let_def)
  from split_on_nonempty[of ?c "take k source"] have pos: "Suc 0 \<le> length ?L"
    by (cases ?L) auto
  have tw: "takeWhile (\<lambda>x. x \<noteq> ?c) (drop k source) = w @ takeWhile (\<lambda>x. x \<noteq> ?c) after"
  proof -
    from assms(2) have "\<And>x. x \<in> set w \<Longrightarrow> x \<noteq> ?c" by auto
    then have "takeWhile (\<lambda>x. x \<noteq> ?c) (w @ after) = w @ takeWhile (\<lambda>x. x \<noteq> ?c) after"
      by (rule takeWhile_append2)
    with assms(1) show ?thesis by simp
  qed
  from line pos have idx: "nat (line - 1) = length ?L - 1" by linarith
  from line_at_index[OF assms(3), of ?c] tw
  have ln: "split_on ?c source ! nat (line - 1) = last ?L @ w @ takeWhile (\<lambda>x. x \<noteq> ?c) after"
    and le: "length ?L \<le> length (split_on ?c source)"
    by (simp_all add: idx)
  have sub: "substring (last ?L @ w @ takeWhile (\<lambda>x. x \<noteq> ?c) after)
               (nat (col - 1)) (nat (col + int (length w) - 1)) = w"
    by (simp add: substring_def col nat_add_distrib)
  have c1: "startLine d = endLine d" using assms(5,6) by simp
  have c2: "1 \<le> startLine d" using assms(5) line pos by linarith
  have c3: "startLine d \<le> int (length (split_on ?c source))" using assms(5) line le by simp
  have c4: "1 \<le> startColumn d" using assms(7) col by simp
  have c5: "startColumn d \<le> endColumn d" using assms(7,8) by simp
  have c6: "endColumn d \<le> int (length (split_on ?c source ! nat (startLine d - 1))) + 1"
    using assms(5,7,8) ln col by simp
  have c7: "substring (split_on ?c source ! nat (startLine d - 1))
              (nat (startColumn d - 1)) (nat (endColumn d - 1)) = w"
    using assms(5,7,8) ln sub by simp
  from c1 c2 c3 c4 c5 c6 c7 show ?thesis
    by (simp add: span_text_def Let_def)
qed

text \<open>The matches of a scanning loop are results of \<open>exec\<close>.\<close>

lemma exec_all_mem:
  "exec_all ml r src i = Some matches \<Longrightarrow> m \<in> set matches \<Longrightarrow>
   \<exists>j. regexp_exec ml r src j = Some m"
proof (induction ml r src i arbitrary: matches rule: exec_all.induct)
  case (1 ml r src i)
  show ?case
  proof (cases "regexp_exec ml r src i")
    case None
    with "1.prems" show ?thesis by (simp add: exec_all.simps[of ml r src i])
  next
    case (Some m')
    with "1.prems"(1) have gt: "\<not> match_end m' \<le> i"
      by (auto simp: exec_all.simps[of ml r src i] split: if_splits)
    with Some "1.prems"(1) obtain rest where
      r: "exec_all ml r src (match_end m') = Some rest" and "matches = m' # rest"
      by (auto simp: exec_all.simps[of ml r src i])
    with "1.prems"(2) consider "m = m'" | "m \<in> set rest" by auto
    then show ?thesis
    proof cases
      case 1 with Some show ?thesis by blast
    next
      case 2 from "1.IH"[OF Some gt r 2] show ?thesis .
    qed
  qed
qed

text \<open>A result of \<open>exec\<close> is the best end state of the matcher at the index of the match.\<close>

lemma search_head:
  "search ml r p s j = Some m \<Longrightarrow>
   \<exists>k p' s' ss. index m = j + k \<and> k \<le> length s \<and>
      ms ml r \<lparr>prev = p', rest = drop k s, caps = []\<rparr> = s' # ss \<and>
      groups m = caps s' \<and>
      text0 m = matched \<lparr>prev = p', rest = drop k s, caps = []\<rparr> s'"
proof (induction s arbitrary: p j)
  case Nil
  then obtain s' ss where "ms ml r \<lparr>prev = p, rest = [], caps = []\<rparr> = s' # ss"
    "groups m = caps s'" "index m = j"
    "text0 m = matched \<lparr>prev = p, rest = [], caps = []\<rparr> s'"
    by (cases "ms ml r \<lparr>prev = p, rest = [], caps = []\<rparr>") auto
  then show ?case
    by (intro exI[of _ 0] exI[of _ p] exI[of _ s'] exI[of _ ss]) simp
next
  case (Cons c cs)
  show ?case
  proof (cases "ms ml r \<lparr>prev = p, rest = c # cs, caps = []\<rparr>")
    case Nil
    with Cons.prems have "search ml r (Some c) cs (Suc j) = Some m" by simp
    from Cons.IH[OF this] obtain k p' s' ss where
      "index m = Suc j + k" "k \<le> length cs"
      "ms ml r \<lparr>prev = p', rest = drop k cs, caps = []\<rparr> = s' # ss" "groups m = caps s'"
      "text0 m = matched \<lparr>prev = p', rest = drop k cs, caps = []\<rparr> s'"
      by blast
    then show ?thesis
      by (intro exI[of _ "Suc k"] exI[of _ p'] exI[of _ s'] exI[of _ ss]) simp
  next
    case (Cons s' ss)
    with Cons.prems show ?thesis
      by (intro exI[of _ 0] exI[of _ p] exI[of _ s'] exI[of _ ss]) auto
  qed
qed

lemma regexp_exec_head:
  assumes "regexp_exec ml r src i = Some m"
  shows "\<exists>p s' ss. index m \<le> length src \<and>
      ms ml r \<lparr>prev = p, rest = drop (index m) src, caps = []\<rparr> = s' # ss \<and>
      groups m = caps s' \<and>
      text0 m = matched \<lparr>prev = p, rest = drop (index m) src, caps = []\<rparr> s'"
proof -
  from assms have i: "i \<le> length src"
    and s: "search ml r (if i = 0 then None else Some (src ! (i - 1))) (drop i src) i = Some m"
    by (auto simp: regexp_exec_def split: if_splits)
  from search_head[OF s] obtain k p' s' ss where
    k: "index m = i + k" "k \<le> length (drop i src)"
      "ms ml r \<lparr>prev = p', rest = drop k (drop i src), caps = []\<rparr> = s' # ss"
      "groups m = caps s'"
      "text0 m = matched \<lparr>prev = p', rest = drop k (drop i src), caps = []\<rparr> s'"
    by blast
  from k(1,2) i have "index m \<le> length src" by simp
  moreover from k(1,3) have "ms ml r \<lparr>prev = p', rest = drop (index m) src, caps = []\<rparr> = s' # ss"
    by (simp add: add.commute)
  moreover from k(1,5) have "text0 m = matched \<lparr>prev = p', rest = drop (index m) src, caps = []\<rparr> s'"
    by (simp add: add.commute)
  ultimately show ?thesis using k(4) by blast
qed

text \<open>The text a matcher consumes, and what it does to the captures.\<close>

lemma matched_eq: "rest s = w @ rest s' \<Longrightarrow> matched s s' = w"
  by (simp add: matched_def)

lemma matched_clear: "matched (clear r s) s' = matched s s'"
  by (simp add: matched_def clear_def)

fun accepts_only :: "(char \<Rightarrow> bool) \<Rightarrow> regex \<Rightarrow> bool" where
  "accepts_only Q Dot = (\<forall>c. \<not> is_line_terminator c \<longrightarrow> Q c)"
| "accepts_only Q (Cls as) = (\<forall>c. list_ex (\<lambda>a. atom_mem a c) as \<longrightarrow> Q c)"
| "accepts_only Q (NCls as) = (\<forall>c. \<not> list_ex (\<lambda>a. atom_mem a c) as \<longrightarrow> Q c)"
| "accepts_only Q (Seq a b) = (accepts_only Q a \<and> accepts_only Q b)"
| "accepts_only Q (Alt a b) = (accepts_only Q a \<and> accepts_only Q b)"
| "accepts_only Q (Star r) = accepts_only Q r"
| "accepts_only Q (Opt r) = accepts_only Q r"
| "accepts_only Q (Group n r) = accepts_only Q r"
| "accepts_only Q _ = True"

lemma step_chars:
  "s' \<in> set (step P s) \<Longrightarrow> \<exists>c. P c \<and> rest s = c # rest s'"
  by (cases "rest s") (auto simp: step_def split: if_splits)

lemma ms_chars:
  "accepts_only Q r \<Longrightarrow> s' \<in> set (ms ml r s) \<Longrightarrow> list_all Q (matched s s')"
proof (induction ml r s arbitrary: s' rule: ms.induct)
  case (1 ml s) then show ?case by (simp add: matched_def)
next
  case (2 ml s)
  from step_chars[of s' _ s] 2 obtain c where "\<not> is_line_terminator c" "rest s = c # rest s'"
    by auto
  with 2(1) show ?case by (simp add: matched_eq[of s "[c]" s'])
next
  case (3 ml as s)
  from step_chars[of s' _ s] 3 obtain c where "list_ex (\<lambda>a. atom_mem a c) as"
    "rest s = c # rest s'" by auto
  with 3(1) show ?case by (simp add: matched_eq[of s "[c]" s'])
next
  case (4 ml as s)
  from step_chars[of s' _ s] 4 obtain c where "\<not> list_ex (\<lambda>a. atom_mem a c) as"
    "rest s = c # rest s'" by auto
  with 4(1) show ?case by (simp add: matched_eq[of s "[c]" s'])
next
  case (5 ml a b s)
  from 5(4) obtain s1 where s1: "s1 \<in> set (ms ml a s)" and s': "s' \<in> set (ms ml b s1)"
    by auto
  from ms_suffix[OF s1] obtain w1 where w1: "rest s = w1 @ rest s1" by blast
  from ms_suffix[OF s'] obtain w2 where w2: "rest s1 = w2 @ rest s'" by blast
  from 5(1)[OF _ s1] 5(3) w1 have "list_all Q w1" by (simp add: matched_eq)
  moreover from 5(2)[OF s1 _ s'] 5(3) w2 have "list_all Q w2" by (simp add: matched_eq)
  moreover from w1 w2 have "matched s s' = w1 @ w2" by (simp add: matched_eq)
  ultimately show ?case by simp
next
  case (6 ml a b s)
  then show ?case by auto
next
  case (7 ml r s)
  from 7(4) consider "s' = s"
    | s1 where "s1 \<in> set (ms ml r (clear r s))" "progress s s1" "s' \<in> set (ms ml (Star r) s1)"
    by (auto simp: ms.simps(7)[of ml r s])
  then show ?case
  proof cases
    case 1 then show ?thesis by (simp add: matched_def)
  next
    case 2
    from ms_suffix[OF 2(1)] obtain w1 where w1: "rest s = w1 @ rest s1"
      by (auto simp: clear_def)
    from ms_suffix[OF 2(3)] obtain w2 where w2: "rest s1 = w2 @ rest s'" by blast
    from 7(1)[OF _ 2(1)] 7(3) w1 have "list_all Q w1"
      by (simp add: matched_clear matched_eq[of s w1 s1])
    moreover from 7(2)[of s1 s'] 2 7(3) w2 have "list_all Q w2" by (simp add: matched_eq)
    moreover from w1 w2 have "matched s s' = w1 @ w2" by (simp add: matched_eq)
    ultimately show ?thesis by simp
  qed
next
  case (8 ml r s)
  from 8(3) consider "s' = s" | "s' \<in> set (ms ml r (clear r s))" by auto
  then show ?case
  proof cases
    case 1 then show ?thesis by (simp add: matched_def)
  next
    case 2
    from ms_suffix[OF 2] obtain w1 where w1: "rest s = w1 @ rest s'"
      by (auto simp: clear_def)
    from 8(1)[OF _ 2] 8(2) w1 show ?thesis
      by (simp add: matched_clear matched_eq[of s w1 s'])
  qed
next
  case (9 ml n r s)
  from 9(3) obtain s1 where s1: "s1 \<in> set (ms ml r s)"
    and s': "s' = s1\<lparr>caps := (n, matched s s1) # caps s1\<rparr>" by auto
  from 9(1)[OF _ s1] 9(2) s' show ?case by (simp add: matched_def)
next
  case (10 ml s) then show ?case by (auto simp: matched_def split: option.splits if_splits)
next
  case (11 ml s) then show ?case by (auto simp: matched_def split: list.splits if_splits)
next
  case (12 ml s) then show ?case by (auto simp: matched_def split: if_splits)
qed

lemma clear_no_groups: "groups_of r = [] \<Longrightarrow> clear r s = s"
  by (simp add: clear_def split_def)

lemma ms_caps:
  "groups_of r = [] \<Longrightarrow> s' \<in> set (ms ml r s) \<Longrightarrow> caps s' = caps s"
proof (induction ml r s arbitrary: s' rule: ms.induct)
  case (5 ml a b s)
  from 5(4) obtain s1 where s1: "s1 \<in> set (ms ml a s)" and s': "s' \<in> set (ms ml b s1)"
    by auto
  from 5(1)[OF _ s1] 5(2)[OF s1 _ s'] 5(3) show ?case by simp
next
  case (6 ml a b s)
  then show ?case by auto
next
  case (7 ml r s)
  from 7(3) have g: "groups_of r = []" by simp
  from 7(4) consider "s' = s"
    | s1 where "s1 \<in> set (ms ml r (clear r s))" "progress s s1" "s' \<in> set (ms ml (Star r) s1)"
    by (auto simp: ms.simps(7)[of ml r s])
  then show ?case
  proof cases
    case 1 then show ?thesis by simp
  next
    case 2
    from 7(1)[OF g 2(1)] 7(2)[of s1 s'] 2 7(3) g show ?thesis
      by (simp add: clear_no_groups)
  qed
next
  case (8 ml r s)
  from 8(2) have g: "groups_of r = []" by simp
  from 8(3) consider "s' = s" | "s' \<in> set (ms ml r (clear r s))" by auto
  then show ?case
  proof cases
    case 1 then show ?thesis by simp
  next
    case 2
    from 8(1)[OF g 2] g show ?thesis by (simp add: clear_no_groups)
  qed
qed (auto simp: step_def split: list.splits option.splits if_splits)

text \<open>
  The shape all the declaration patterns share: \<open>^\<close>, group 1, group 2, and a tail
  without groups.  Group 1 is the text at the index of the match, group 2 the text right
  after it.
\<close>

lemma two_groups_match:
  assumes "s' \<in> set (ms ml (Seq Bol (Seq (Group 1 a) (Seq (Group 2 b) t))) s0)"
    and "groups_of a = []" "groups_of b = []" "groups_of t = []"
    and "accepts_only Q b"
  shows "\<exists>g1 g2 w. rest s0 = g1 @ g2 @ w \<and> caps s' = (2, g2) # (1, g1) # caps s0 \<and>
           list_all Q g2"
proof -
  from assms(1) obtain s1 s2 s3 where
    s1: "s1 \<in> set (ms ml Bol s0)" and
    s2: "s2 \<in> set (ms ml (Group 1 a) s1)" and
    s3: "s3 \<in> set (ms ml (Group 2 b) s2)" and
    s4: "s' \<in> set (ms ml t s3)"
    by auto
  from s1 have e1: "s1 = s0" by (auto split: option.splits if_splits)
  from s2 obtain ta where ta: "ta \<in> set (ms ml a s1)"
    and s2e: "s2 = ta\<lparr>caps := (1, matched s1 ta) # caps ta\<rparr>" by auto
  from s3 obtain tb where tb: "tb \<in> set (ms ml b s2)"
    and s3e: "s3 = tb\<lparr>caps := (2, matched s2 tb) # caps tb\<rparr>" by auto
  from ms_suffix[OF ta] obtain g1 where g1: "rest s1 = g1 @ rest ta" by blast
  from ms_suffix[OF tb] obtain g2 where g2: "rest s2 = g2 @ rest tb" by blast
  from ms_suffix[OF s4] obtain w where w: "rest s3 = w @ rest s'" by blast
  from ms_caps[OF assms(2) ta] have ca: "caps ta = caps s1" .
  from ms_caps[OF assms(3) tb] have cb: "caps tb = caps s2" .
  from ms_caps[OF assms(4) s4] have ct: "caps s' = caps s3" .
  from ms_chars[OF assms(5) tb] g2 have q: "list_all Q g2" by (simp add: matched_eq)
  from g1 g2 w e1 s2e s3e have "rest s0 = g1 @ g2 @ (w @ rest s')" by simp
  moreover from ca cb ct e1 s2e s3e g1 g2
  have "caps s' = (2, g2) # (1, g1) # caps s0" by (simp add: matched_eq)
  ultimately show ?thesis using q by blast
qed

lemma py_variable_match:
  assumes "regexp_exec True PY_VARIABLE_ASSIGNMENT source j = Some m"
  shows "\<exists>w. drop (index m + length (group_str m 1)) source = group_str m 2 @ w \<and>
           index m + length (group_str m 1) \<le> length source \<and>
           list_all is_word (group_str m 2)"
proof -
  from regexp_exec_head[OF assms] obtain p s' ss where
    le: "index m \<le> length source" and
    h: "ms True PY_VARIABLE_ASSIGNMENT \<lparr>prev = p, rest = drop (index m) source, caps = []\<rparr>
          = s' # ss" and
    g: "groups m = caps s'"
    by blast
  let ?s0 = "\<lparr>prev = p, rest = drop (index m) source, caps = []\<rparr>"
  from h have mem: "s' \<in> set (ms True PY_VARIABLE_ASSIGNMENT ?s0)" by simp
  have "\<exists>g1 g2 w. rest ?s0 = g1 @ g2 @ w \<and> caps s' = (2, g2) # (1, g1) # caps ?s0 \<and>
           list_all is_word g2"
    by (rule two_groups_match[OF mem[unfolded PY_VARIABLE_ASSIGNMENT_def seqs.simps]])
       (simp_all add: Plus_def word_def space_def chr_def)
  then obtain g1 g2 w where
    r: "drop (index m) source = g1 @ g2 @ w" and c: "caps s' = [(2, g2), (1, g1)]"
    and q: "list_all is_word g2"
    by auto
  from c g have gs: "group_str m 1 = g1" "group_str m 2 = g2"
    by (simp_all add: group_str_def group_def)
  from r have "length (g1 @ g2 @ w) = length source - index m"
    by (metis length_drop)
  with le have le2: "index m + length g1 \<le> length source" by simp
  from r have "drop (index m + length g1) source = g2 @ w"
    by (metis add.commute append_eq_conv_conj drop_drop)
  with gs le2 q show ?thesis by auto
qed

text \<open>
  The Python variable scan computes the position of the name from the index where the
  name starts, so the span of each variable definition holds the name.
\<close>

definition py_text_ok :: "string \<Rightarrow> SymbolDefinition \<Rightarrow> bool" where
  "py_text_ok source d = (if kind d = Variable then span_text source d = Some (name d) else True)"

lemma is_word_not_newline: "is_word c \<Longrightarrow> c \<noteq> CHR ''\<newline>''"
  by (auto simp: is_word_def)

lemma fold_snd_list_all_mem:
  assumes "\<And>x st. x \<in> set xs \<Longrightarrow> list_all P (snd st) \<Longrightarrow> list_all P (snd (f x st))"
    and "list_all P (snd st)"
  shows "list_all P (snd (fold f xs st))"
  using assms
proof (induction xs arbitrary: st)
  case Nil
  then show ?case by simp
next
  case (Cons x xs)
  have "list_all P (snd (f x st))" using Cons.prems by simp
  with Cons.IH[of "f x st"] Cons.prems(1) show ?case by simp
qed

lemma py_variable_body_text:
  assumes "regexp_exec True PY_VARIABLE_ASSIGNMENT source j = Some m"
    and "list_all (py_text_ok source) (snd st)"
  shows "list_all (py_text_ok source) (snd (py_variable_body source m st))"
proof -
  let ?k = "index m + length (group_str m 1)"
  let ?d = "\<lparr>name = group_str m 2, startLine = fst (getLineColumn source ?k),
             startColumn = snd (getLineColumn source ?k),
             endLine = fst (getLineColumn source ?k),
             endColumn = snd (getLineColumn source ?k) + int (length (group_str m 2)),
             kind = Variable\<rparr>"
  from py_variable_match[OF assms(1)] obtain w where
    d: "drop ?k source = group_str m 2 @ w" and le: "?k \<le> length source"
    and q: "list_all is_word (group_str m 2)"
    by blast
  from q have nl: "CHR ''\<newline>'' \<notin> set (group_str m 2)"
    using is_word_not_newline by (auto simp: list_all_iff)
  have "span_text source ?d = Some (group_str m 2)"
    by (rule span_text_at_index[OF d nl le, of "fst (getLineColumn source ?k)"
          "snd (getLineColumn source ?k)"]) simp_all
  then have "py_text_ok source ?d" by (simp add: py_text_ok_def)
  with assms(2) show ?thesis
    by (simp add: py_variable_body_def Let_def)
qed

lemma py_param_loop_text:
  "list_all (py_text_ok source) ds \<Longrightarrow>
   list_all (py_text_ok source) (py_param_loop params colOffset funcLine ds)"
  by (induction params colOffset funcLine ds rule: py_param_loop.induct)
     (auto simp: Let_def py_text_ok_def)

lemma py_findParameters_text:
  "list_all (py_text_ok source) ds \<Longrightarrow>
   list_all (py_text_ok source) (py_findParameters funcDef funcLine ds)"
  by (auto simp: py_findParameters_def py_param_loop_text split: option.splits)

lemma py_function_body_text:
  "list_all (py_text_ok source) ds \<Longrightarrow>
   list_all (py_text_ok source) (py_function_body source m ds)"
  unfolding py_function_body_def Let_def
  by (rule py_findParameters_text) (simp add: py_text_ok_def)

lemma py_class_body_text:
  "list_all (py_text_ok source) ds \<Longrightarrow>
   list_all (py_text_ok source) (py_class_body source m ds)"
  by (simp add: py_class_body_def Let_def py_text_ok_def)

lemma import_list_body_text:
  "list_all (py_text_ok source) ds \<Longrightarrow>
   list_all (py_text_ok source) (import_list_body lines line imp ds)"
  by (simp add: import_list_body_def Let_def py_text_ok_def)

lemma py_import_from_body_text:
  "list_all (py_text_ok source) ds \<Longrightarrow>
   list_all (py_text_ok source) (py_import_from_body source lines m ds)"
  unfolding py_import_from_body_def Let_def
  by (rule fold_list_all) (auto intro: import_list_body_text)

lemma py_import_simple_body_text:
  "list_all (py_text_ok source) ds \<Longrightarrow>
   list_all (py_text_ok source) (py_import_simple_body source lines m ds)"
  by (simp add: py_import_simple_body_def Let_def py_text_ok_def)

lemma py_findDefinitions_text:
  assumes "py_findDefinitions source = Some ds"
  shows "list_all (py_text_ok source) ds"
proof -
  let ?lines = "split_on CHR ''\<newline>'' source"
  let ?P = "py_text_ok source"
  from assms obtain d1 d2 d3 where
    1: "py_findFunctions source ?lines [] = Some d1" and
    2: "py_findClasses source ?lines d1 = Some d2" and
    3: "py_findVariables source ?lines d2 = Some d3" and
    4: "py_findImports source ?lines d3 = Some ds"
    by (auto simp: py_findDefinitions_def Let_def split: option.splits)
  from 1 have p1: "list_all ?P d1"
    by (auto simp: py_findFunctions_def intro!: fold_list_all py_function_body_text)
  from 2 p1 have p2: "list_all ?P d2"
    by (auto simp: py_findClasses_def intro!: fold_list_all py_class_body_text)
  from 3 obtain matches where
    m: "exec_all True PY_VARIABLE_ASSIGNMENT source 0 = Some matches" and
    d3: "d3 = snd (fold (py_variable_body source) matches ({}, d2))"
    by (auto simp: py_findVariables_def)
  have "list_all ?P (snd (fold (py_variable_body source) matches ({}, d2)))"
  proof (rule fold_snd_list_all_mem)
    fix x and st :: "(nat \<times> string) set \<times> SymbolDefinition list"
    assume "x \<in> set matches" and inv: "list_all ?P (snd st)"
    with exec_all_mem[OF m] obtain j where
      "regexp_exec True PY_VARIABLE_ASSIGNMENT source j = Some x" by blast
    from py_variable_body_text[OF this inv]
    show "list_all ?P (snd (py_variable_body source x st))" .
  next
    from p2 show "list_all ?P (snd ({}, d2))" by simp
  qed
  with d3 have p3: "list_all ?P d3" by simp
  from 4 obtain ms1 ms2 where
    "ds = fold (py_import_simple_body source ?lines) ms2
            (fold (py_import_from_body source ?lines) ms1 d3)"
    by (auto simp: py_findImports_def split: option.splits)
  with p3 show ?thesis
    by (auto intro!: fold_list_all py_import_simple_body_text py_import_from_body_text)
qed

section \<open>The spans, for every source text\<close>

text \<open>
  Claim C1, as amended.  Both scanners return for every source text, and every definition
  they emit is on one line.  A definition that is not an import ends \<open>length name\<close>
  columns after its start.  An import definition does not span its name: it spans its
  whole source line, from column 1 to the length of the line (1 for an empty line).  For
  the variable definitions of the Python scanner, the text at the span is the name.
\<close>

theorem scanner_spans:
  "(\<exists>ds. py_findDefinitions source = Some ds) \<and>
   (\<exists>ds. ts_findDefinitions source = Some ds) \<and>
   (\<forall>ds d. (py_findDefinitions source = Some ds \<or> ts_findDefinitions source = Some ds) \<and>
            d \<in> set ds \<longrightarrow>
      startLine d = endLine d \<and>
      (kind d \<noteq> Import \<longrightarrow> endColumn d - startColumn d = int (length (name d))) \<and>
      (kind d = Import \<longrightarrow>
         startColumn d = 1 \<and>
         endColumn d = line_length_or_1 (split_on CHR ''\<newline>'' source) (startLine d))) \<and>
   (\<forall>ds d. py_findDefinitions source = Some ds \<and> d \<in> set ds \<and> kind d = Variable \<longrightarrow>
      span_text source d = Some (name d))"
proof (intro conjI allI impI)
  show "\<exists>ds. py_findDefinitions source = Some ds" by (rule py_findDefinitions_total)
  show "\<exists>ds. ts_findDefinitions source = Some ds" by (rule ts_findDefinitions_total)
next
  fix ds d
  assume a: "(py_findDefinitions source = Some ds \<or> ts_findDefinitions source = Some ds) \<and>
             d \<in> set ds"
  then have "list_all (span_by_design source) ds"
    using py_findDefinitions_span ts_findDefinitions_span by blast
  with a have s: "span_by_design source d" by (simp add: list_all_iff)
  from s show "startLine d = endLine d" by (simp add: span_by_design_def)
  {
    assume "kind d \<noteq> Import"
    with s show "endColumn d - startColumn d = int (length (name d))"
      by (simp add: span_by_design_def)
  }
  {
    assume "kind d = Import"
    with s show "startColumn d = 1" by (simp add: span_by_design_def)
  }
  {
    assume "kind d = Import"
    with s show "endColumn d = line_length_or_1 (split_on CHR ''\<newline>'' source) (startLine d)"
      by (simp add: span_by_design_def)
  }
next
  fix ds d
  assume a: "py_findDefinitions source = Some ds \<and> d \<in> set ds \<and> kind d = Variable"
  with py_findDefinitions_text[of source ds] have "py_text_ok source d"
    by (simp add: list_all_iff)
  with a show "span_text source d = Some (name d)" by (simp add: py_text_ok_def)
qed

text \<open>
  The Python text \<open>import json\<close>, \<open>x = 1\<close>: the variable \<open>x\<close> has the span of its
  name on line 2, the import of \<open>json\<close> has the whole of line 1.
\<close>

theorem scanner_spans_witness:
  "py_findDefinitions ''import json\<newline>x = 1'' =
     Some [\<lparr>name = ''x'', startLine = 2, startColumn = 1, endLine = 2, endColumn = 2,
             kind = Variable\<rparr>,
           \<lparr>name = ''json'', startLine = 1, startColumn = 1, endLine = 1, endColumn = 11,
             kind = Import\<rparr>] \<and>
   span_text ''import json\<newline>x = 1''
     \<lparr>name = ''x'', startLine = 2, startColumn = 1, endLine = 2, endColumn = 2,
       kind = Variable\<rparr> = Some ''x'' \<and>
   line_length_or_1 (split_on CHR ''\<newline>'' ''import json\<newline>x = 1'') 1 = 11"
proof -
  let ?source = "''import json\<newline>x = 1''"
  let ?x = "\<lparr>name = ''x'', startLine = 2, startColumn = 1, endLine = 2, endColumn = 2,
             kind = Variable\<rparr>"
  let ?j = "\<lparr>name = ''json'', startLine = 1, startColumn = 1, endLine = 1, endColumn = 11,
             kind = Import\<rparr>"
  have d: "py_findDefinitions ?source = Some [?x, ?j]" by code_simp
  from scanner_spans[of ?source] d have "span_text ?source ?x = Some (name ?x)"
    by (metis SymbolDefinition.select_convs(6) list.set_intros(1))
  moreover
  from scanner_spans[of ?source] d
  have "endColumn ?j = line_length_or_1 (split_on CHR ''\<newline>'' ?source) (startLine ?j)"
    by (metis SymbolDefinition.select_convs(6) list.set_intros(1,2))
  ultimately show ?thesis using d by simp
qed

text \<open>
  The claim as stated fails for imports: the definition of \<open>json\<close> in \<open>import json\<close>
  spans columns 1 to 11, ten columns for a name of four characters, and the text at the
  span is not the name.
\<close>

theorem import_span_counterexample:
  "py_findDefinitions ''import json'' =
     Some [\<lparr>name = ''json'', startLine = 1, startColumn = 1, endLine = 1, endColumn = 11,
             kind = Import\<rparr>] \<and>
   (11::int) - 1 \<noteq> int (length ''json'') \<and>
   span_text ''import json''
     \<lparr>name = ''json'', startLine = 1, startColumn = 1, endLine = 1, endColumn = 11,
       kind = Import\<rparr> = Some ''import jso''"
  by code_simp

section \<open>Where the span is not the name\<close>

text \<open>
  Two inputs on which the text at the span of a definition that is not an import is not
  its name.  The Python function scan takes the name to start four characters after the
  indent, whatever white space follows \<open>def\<close>.  The TypeScript scans count the column
  from the start of the match, which starts on an earlier line when blank lines come
  before the declaration.
\<close>

lemma span_is_not_name:
  "py_findDefinitions ''def  f():'' =
     Some [\<lparr>name = ''f'', startLine = 1, startColumn = 5, endLine = 1, endColumn = 6,
             kind = Function\<rparr>] \<and>
   span_text ''def  f():''
     \<lparr>name = ''f'', startLine = 1, startColumn = 5, endLine = 1, endColumn = 6,
       kind = Function\<rparr> = Some '' '' \<and>
   ts_findDefinitions ''\<newline>function hello() {}'' =
     Some [\<lparr>name = ''hello'', startLine = 1, startColumn = 11, endLine = 1, endColumn = 16,
             kind = Function\<rparr>] \<and>
   span_text ''\<newline>function hello() {}''
     \<lparr>name = ''hello'', startLine = 1, startColumn = 11, endLine = 1, endColumn = 16,
       kind = Function\<rparr> = None"
  by code_simp

section \<open>Parameters of Python functions\<close>

text \<open>
  \<open>findFunctions\<close> hands \<open>findParameters\<close> the text of the match.  That text has
  no closing parenthesis in it, the pattern of \<open>findParameters\<close> needs one, so
  \<open>findParameters\<close> returns without a definition for every match, and the Python
  scanner emits no parameter definition for any source text.
\<close>

lemma py_function_text_no_close:
  assumes "regexp_exec True PY_FUNCTION_DEF source j = Some m"
  shows "CHR '')'' \<notin> set (text0 m)"
proof -
  from regexp_exec_head[OF assms] obtain p s' ss where
    h: "ms True PY_FUNCTION_DEF \<lparr>prev = p, rest = drop (index m) source, caps = []\<rparr> = s' # ss"
    and t: "text0 m = matched \<lparr>prev = p, rest = drop (index m) source, caps = []\<rparr> s'"
    by blast
  let ?s0 = "\<lparr>prev = p, rest = drop (index m) source, caps = []\<rparr>"
  from h have mem: "s' \<in> set (ms True PY_FUNCTION_DEF ?s0)" by simp
  have "accepts_only (\<lambda>c. c \<noteq> CHR '')'') PY_FUNCTION_DEF"
    by (auto simp: PY_FUNCTION_DEF_def lit_def chr_def Plus_def word_def space_def
          is_word_def is_space_def)
  from ms_chars[OF this mem] t show ?thesis by (auto simp: list_all_iff)
qed

lemma param_list_needs_close:
  assumes "CHR '')'' \<notin> set t"
  shows "regexp_exec False PY_PARAM_LIST t 0 = None"
proof (rule ccontr)
  assume "regexp_exec False PY_PARAM_LIST t 0 \<noteq> None"
  then obtain m where m: "regexp_exec False PY_PARAM_LIST t 0 = Some m" by auto
  from regexp_exec_head[OF m] obtain p s' ss where
    h: "ms False PY_PARAM_LIST \<lparr>prev = p, rest = drop (index m) t, caps = []\<rparr> = s' # ss"
    by blast
  let ?s0 = "\<lparr>prev = p, rest = drop (index m) t, caps = []\<rparr>"
  from h have "s' \<in> set (ms False PY_PARAM_LIST ?s0)" by simp
  then obtain s1 s2 where
    s1: "s1 \<in> set (ms False (chr CHR ''('') ?s0)" and
    s2: "s2 \<in> set (ms False (Group 1 (Star (NCls [AChar CHR '')'']))) s1)" and
    s3: "s' \<in> set (ms False (chr CHR '')'') s2)"
    by (auto simp: PY_PARAM_LIST_def)
  from s3 step_chars[of s' _ s2] have "rest s2 = CHR '')'' # rest s'"
    by (auto simp: chr_def)
  moreover from ms_suffix[OF s2] obtain w2 where "rest s1 = w2 @ rest s2" by blast
  moreover from ms_suffix[OF s1] obtain w1 where "rest ?s0 = w1 @ rest s1" by blast
  ultimately have "CHR '')'' \<in> set (drop (index m) t)" by simp
  with assms show False by (auto dest: in_set_dropD)
qed

lemma fold_list_all_mem:
  assumes "\<And>x ds. x \<in> set xs \<Longrightarrow> list_all P ds \<Longrightarrow> list_all P (f x ds)"
    and "list_all P ds"
  shows "list_all P (fold f xs ds)"
  using assms
proof (induction xs arbitrary: ds)
  case Nil
  then show ?case by simp
next
  case (Cons x xs)
  have "list_all P (f x ds)" using Cons.prems by simp
  with Cons.IH[of "f x ds"] Cons.prems(1) show ?case by simp
qed

lemma py_function_body_no_parameter:
  assumes "regexp_exec True PY_FUNCTION_DEF source j = Some m"
    and "list_all (\<lambda>d. kind d \<noteq> Parameter) ds"
  shows "list_all (\<lambda>d. kind d \<noteq> Parameter) (py_function_body source m ds)"
  using param_list_needs_close[OF py_function_text_no_close[OF assms(1)]] assms(2)
  by (simp add: py_function_body_def py_findParameters_def Let_def)

lemma py_findDefinitions_no_parameter:
  assumes "py_findDefinitions source = Some ds"
  shows "list_all (\<lambda>d. kind d \<noteq> Parameter) ds"
proof -
  let ?lines = "split_on CHR ''\<newline>'' source"
  let ?P = "\<lambda>d. kind d \<noteq> Parameter"
  from assms obtain d1 d2 d3 where
    1: "py_findFunctions source ?lines [] = Some d1" and
    2: "py_findClasses source ?lines d1 = Some d2" and
    3: "py_findVariables source ?lines d2 = Some d3" and
    4: "py_findImports source ?lines d3 = Some ds"
    by (auto simp: py_findDefinitions_def Let_def split: option.splits)
  from 1 obtain fmatches where
    m: "exec_all True PY_FUNCTION_DEF source 0 = Some fmatches" and
    d1: "d1 = fold (py_function_body source) fmatches []"
    by (auto simp: py_findFunctions_def)
  have "list_all ?P (fold (py_function_body source) fmatches [])"
  proof (rule fold_list_all_mem)
    fix x and ds :: "SymbolDefinition list"
    assume "x \<in> set fmatches" and inv: "list_all ?P ds"
    with exec_all_mem[OF m] obtain j where
      "regexp_exec True PY_FUNCTION_DEF source j = Some x" by blast
    from py_function_body_no_parameter[OF this inv]
    show "list_all ?P (py_function_body source x ds)" .
  qed simp
  with d1 have p1: "list_all ?P d1" by simp
  from 2 p1 have p2: "list_all ?P d2"
    by (auto simp: py_findClasses_def py_class_body_def Let_def intro!: fold_list_all)
  from 3 obtain matches where
    "d3 = snd (fold (py_variable_body source) matches ({}, d2))"
    by (auto simp: py_findVariables_def)
  with p2 have p3: "list_all ?P d3"
    by (auto simp: py_variable_body_def Let_def intro!: fold_snd_list_all)
  from 4 obtain ms1 ms2 where
    "ds = fold (py_import_simple_body source ?lines) ms2
            (fold (py_import_from_body source ?lines) ms1 d3)"
    by (auto simp: py_findImports_def split: option.splits)
  with p3 show ?thesis
    by (auto simp: py_import_simple_body_def py_import_from_body_def import_list_body_def Let_def
             intro!: fold_list_all)
qed

text \<open>
  Claim C4 does not hold of the code.  For \<open>def greet(name):\<close> the scanner emits
  the function and no parameter: the match that \<open>findParameters\<close> is given is
  \<open>def greet(\<close>, in which it finds nothing, while in the whole header
  \<open>def greet(name)\<close> it finds the parameter.
\<close>

theorem py_parameters_not_emitted:
  "py_findDefinitions ''def greet(name):\<newline>    print(name)'' =
     Some [\<lparr>name = ''greet'', startLine = 1, startColumn = 5, endLine = 1, endColumn = 10,
             kind = Function\<rparr>] \<and>
   regexp_exec True PY_FUNCTION_DEF ''def greet(name):\<newline>    print(name)'' 0 =
     Some \<lparr>index = 0, text0 = ''def greet('', groups = [(2, ''greet''), (1, [])]\<rparr> \<and>
   py_findParameters ''def greet('' 1 [] = [] \<and>
   py_findParameters ''def greet(name)'' 1 [] =
     [\<lparr>name = ''name'', startLine = 1, startColumn = 11, endLine = 1, endColumn = 15,
       kind = Parameter\<rparr>]"
  by code_simp

section \<open>Import paths\<close>

text \<open>
  Claim C5 does not hold of the code.  In \<open>from os import path as p\<close> the bound name
  is \<open>p\<close>, as \<open>findDefinitions\<close> has it; \<open>getImportPath\<close> still gives the module for
  \<open>path\<close>, also when \<open>path\<close> is a variable of the document, and for the keyword
  \<open>as\<close>.  The TypeScript analyzer does the same for a named import with an alias.
  The order of the shapes is as the claim has it: a \<open>from\<close> import is found before an
  aliased import that comes first in the text.
\<close>

theorem getImportPath_unbound_name:
  \<open>py_findDefinitions ''from os import path as p'' =
     Some [\<lparr>name = ''p'', startLine = 1, startColumn = 1, endLine = 1, endColumn = 24,
             kind = Import\<rparr>] \<and>
   py_getImportPath ''from os import path as p'' ''path'' = Some ''os'' \<and>
   py_getImportPath ''from os import path as p'' ''as'' = Some ''os'' \<and>
   py_getImportPath ''from os import path as p\<newline>path = 3'' ''path'' = Some ''os'' \<and>
   ts_findDefinitions ''import { a as b } from "m"'' =
     Some [\<lparr>name = ''b'', startLine = 1, startColumn = 1, endLine = 1, endColumn = 26,
             kind = Import\<rparr>] \<and>
   ts_getImportPath ''import { a as b } from "m"'' ''a'' = Some ''m'' \<and>
   py_getImportPath ''import numpy as np\<newline>from y import np'' ''np'' = Some ''y''\<close>
  by code_simp

section \<open>The first and the last character of a match\<close>












section \<open>Lines, blank lines and indentation\<close>











section \<open>Deduplication in the TypeScript scans\<close>



















section \<open>Positions out of range\<close>

text \<open>
  Claim C8.  \<open>getSymbolAtPosition\<close> of either analyzer returns \<open>null\<close> for line 0, for
  the line after the last one, for column 0, and for the column two past the length of
  the addressed line.  The function is total: there is no input on which it raises.
\<close>

theorem symbolAtPosition_out_of_range:
  "py_getSymbolAtPosition source 0 c = None \<and>
   py_getSymbolAtPosition source (int (length (split_on CHR ''\<newline>'' source)) + 1) c = None \<and>
   py_getSymbolAtPosition source l 0 = None \<and>
   py_getSymbolAtPosition source l
     (int (length (split_on CHR ''\<newline>'' source ! nat (l - 1))) + 2) = None \<and>
   ts_getSymbolAtPosition source 0 c = None \<and>
   ts_getSymbolAtPosition source (int (length (split_on CHR ''\<newline>'' source)) + 1) c = None \<and>
   ts_getSymbolAtPosition source l 0 = None \<and>
   ts_getSymbolAtPosition source l
     (int (length (split_on CHR ''\<newline>'' source ! nat (l - 1))) + 2) = None"
  by (simp add: py_getSymbolAtPosition_def ts_getSymbolAtPosition_def Let_def)

section \<open>Properties of the definition provider\<close>

lemma find_nonimport:
  assumes "d \<in> set definitions" "name d = symbolName" "kind d \<noteq> Import"
  shows "\<exists>d'. find (\<lambda>d. name d = symbolName \<and> kind d \<noteq> Import) definitions = Some d'
           \<and> d' \<in> set definitions \<and> name d' = symbolName \<and> kind d' \<noteq> Import"
proof (cases "find (\<lambda>d. name d = symbolName \<and> kind d \<noteq> Import) definitions")
  case None
  with assms show ?thesis by (auto simp: find_None_iff)
next
  case (Some d')
  then show ?thesis by (auto simp: find_Some_iff)
qed

text \<open>
  Claim C2.  When the definitions extracted from a document contain a non-import
  definition and an import definition of the same name, and the identifier at the cursor
  is that name, and cancellation has not been requested, \<open>provideDefinition\<close> returns
  a location in the document itself (its uri is the model's) whose range is the span of
  the first non-import definition of the name: start line, start column, end line and end
  column of that definition, not those of the import; the external navigation callback
  is not called.
\<close>

theorem local_definition_preferred:
  assumes "analyzers this (languageId model) = Some analyzer"
    and "getSymbolAtPosition analyzer (getValue model) (lineNumber position) (column position)
           = Some symbolName"
    and "symbolName \<noteq> []"
    and "\<not> requested_at_call token"
    and "findDefinitions analyzer (getValue model) = Some definitions"
    and "d \<in> set definitions" "name d = symbolName" "kind d \<noteq> Import"
    and "i \<in> set definitions" "name i = symbolName" "kind i = Import"
  shows "\<exists>d'. find (\<lambda>d. name d = symbolName \<and> kind d \<noteq> Import) definitions = Some d'
           \<and> d' \<in> set definitions \<and> name d' = symbolName \<and> kind d' \<noteq> Import
           \<and> provideDefinition Uri_parse this model position token =
               (Returns (Some \<lparr>uri = model_uri model,
                               range = (startLine d', startColumn d', endLine d', endColumn d')\<rparr>),
                [CallGetSymbolAtPosition, CallFindDefinitions])"
proof -
  from find_nonimport[OF assms(6,7,8)] obtain d' where
    d': "find (\<lambda>d. name d = symbolName \<and> kind d \<noteq> Import) definitions = Some d'"
      "d' \<in> set definitions" "name d' = symbolName" "kind d' \<noteq> Import" by blast
  then have "findMatchingDefinition definitions symbolName = Some d'"
    by (simp add: findMatchingDefinition_def)
  with assms(1-5) have "provideDefinition Uri_parse this model position token =
               (Returns (Some \<lparr>uri = model_uri model,
                               range = (startLine d', startColumn d', endLine d', endColumn d')\<rparr>),
                [CallGetSymbolAtPosition, CallFindDefinitions])"
    by (simp add: provideDefinition_def location_of_def)
  with d' show ?thesis by blast
qed

text \<open>
  The Python document \<open>import foo\<close>, \<open>def foo():\<close> with the cursor on the second
  \<open>foo\<close>: the function's span on line 2 is returned, not the import's line 1.
\<close>

theorem local_definition_preferred_witness:
  "provideDefinition Some
     (new_DefinitionProvider \<lparr>onExternalNavigation = None, includeBuiltins = None\<rparr>)
     \<lparr>languageId = ''python'', getValue = ''import foo\<newline>def foo():'',
      model_uri = ''file:///a.py''\<rparr>
     \<lparr>lineNumber = 2, column = 5\<rparr>
     \<lparr>requested_at_call = False, requested_during_await = False\<rparr>
   = (Returns (Some \<lparr>uri = ''file:///a.py'', range = (2, 5, 2, 8)\<rparr>),
      [CallGetSymbolAtPosition, CallFindDefinitions])"
proof -
  let ?prov = "new_DefinitionProvider \<lparr>onExternalNavigation = None, includeBuiltins = None\<rparr>"
  let ?model = "\<lparr>languageId = ''python'', getValue = ''import foo\<newline>def foo():'',
      model_uri = ''file:///a.py''\<rparr>"
  let ?position = "\<lparr>lineNumber = 2, column = 5\<rparr>"
  let ?token = "\<lparr>requested_at_call = False, requested_during_await = False\<rparr>"
  let ?f = "\<lparr>name = ''foo'', startLine = 2, startColumn = 5, endLine = 2, endColumn = 8,
             kind = Function\<rparr>"
  let ?i = "\<lparr>name = ''foo'', startLine = 1, startColumn = 1, endLine = 1, endColumn = 10,
             kind = Import\<rparr>"
  have a: "analyzers ?prov (languageId ?model) = Some PythonAnalyzer"
    by (simp add: new_DefinitionProvider_def)
  have s: "getSymbolAtPosition PythonAnalyzer (getValue ?model) (lineNumber ?position)
             (column ?position) = Some ''foo''"
    by code_simp
  have ds: "findDefinitions PythonAnalyzer (getValue ?model) = Some [?f, ?i]"
    by code_simp
  from local_definition_preferred[OF a s _ _ ds, of ?token ?f ?i Some]
  show ?thesis by simp
qed

text \<open>
  Claim C3.  When cancellation has been requested before the external navigation
  callback would be called, \<open>provideDefinition\<close> returns \<open>null\<close> and does not call
  the callback.  When it is requested while the callback is awaited, and the callback
  gives a target, the target is discarded and \<open>null\<close> is returned.
\<close>

theorem cancellation_discards_external:
  "(requested_at_call token \<longrightarrow>
      fst (provideDefinition Uri_parse this model position token) = Returns None \<and>
      (\<forall>a b c. CallExternalNavigation a b c
          \<notin> set (snd (provideDefinition Uri_parse this model position token)))) \<and>
   (requested_during_await token \<and>
      CallExternalNavigation a b c \<in> set (snd (provideDefinition Uri_parse this model position token)) \<and>
      onExternalNavigation (options this) = Some callback \<and>
      callback a b c = Resolved (Some target) \<longrightarrow>
      fst (provideDefinition Uri_parse this model position token) = Returns None)"
  by (auto simp: provideDefinition_def try_external_navigation_def Let_def
           split: option.splits if_splits Outcome.splits NavigationOutcome.splits prod.splits)

text \<open>
  The Python document \<open>from os import path as p\<close>, \<open>path\<close> with the cursor on the last
  word, which no definition binds and \<open>getImportPath\<close> finds: the callback is reached
  unless cancellation was requested at the call, and its target is dropped when
  cancellation is requested during the await.
\<close>

theorem cancellation_discards_external_witness:
  "provideDefinition Some
     (new_DefinitionProvider
        \<lparr>onExternalNavigation =
           Some (\<lambda>a b c. Resolved (Some \<lparr>uri = ''file:///os.py'', range = (1, 1, 1, 1)\<rparr>)),
         includeBuiltins = None\<rparr>)
     \<lparr>languageId = ''python'', getValue = ''from os import path as p\<newline>path'',
      model_uri = ''file:///a.py''\<rparr>
     \<lparr>lineNumber = 2, column = 1\<rparr>
     \<lparr>requested_at_call = True, requested_during_await = False\<rparr>
   = (Returns None, [CallGetSymbolAtPosition]) \<and>
   provideDefinition Some
     (new_DefinitionProvider
        \<lparr>onExternalNavigation =
           Some (\<lambda>a b c. Resolved (Some \<lparr>uri = ''file:///os.py'', range = (1, 1, 1, 1)\<rparr>)),
         includeBuiltins = None\<rparr>)
     \<lparr>languageId = ''python'', getValue = ''from os import path as p\<newline>path'',
      model_uri = ''file:///a.py''\<rparr>
     \<lparr>lineNumber = 2, column = 1\<rparr>
     \<lparr>requested_at_call = False, requested_during_await = True\<rparr>
   = (Returns None,
      [CallGetSymbolAtPosition, CallFindDefinitions, CallGetImportPath,
       CallExternalNavigation ''path'' ''os'' ''file:///a.py''])"
proof -
  let ?cb = "\<lambda>a b c. Resolved (Some \<lparr>uri = ''file:///os.py'', range = (1, 1, 1, 1)\<rparr>)"
  let ?prov = "new_DefinitionProvider
        \<lparr>onExternalNavigation = Some ?cb, includeBuiltins = None\<rparr>"
  let ?model = "\<lparr>languageId = ''python'', getValue = ''from os import path as p\<newline>path'',
      model_uri = ''file:///a.py''\<rparr>"
  let ?position = "\<lparr>lineNumber = 2, column = 1\<rparr>"
  let ?t1 = "\<lparr>requested_at_call = True, requested_during_await = False\<rparr>"
  let ?t2 = "\<lparr>requested_at_call = False, requested_during_await = True\<rparr>"
  have e1: "snd (provideDefinition Some ?prov ?model ?position ?t1) = [CallGetSymbolAtPosition]"
    by code_simp
  have e2: "snd (provideDefinition Some ?prov ?model ?position ?t2) =
      [CallGetSymbolAtPosition, CallFindDefinitions, CallGetImportPath,
       CallExternalNavigation ''path'' ''os'' ''file:///a.py'']"
    by code_simp
  have o: "onExternalNavigation (options ?prov) = Some ?cb"
    by (simp add: new_DefinitionProvider_def)
  have r1: "fst (provideDefinition Some ?prov ?model ?position ?t1) = Returns None"
    using cancellation_discards_external[of ?t1 Some ?prov ?model ?position] by simp
  have r2: "fst (provideDefinition Some ?prov ?model ?position ?t2) = Returns None"
    using cancellation_discards_external[of ?t2 Some ?prov ?model ?position
        "''path''" "''os''" "''file:///a.py''" ?cb] e2 o
    by simp
  from r1 e1 r2 e2 show ?thesis by (simp add: prod_eq_iff)
qed

text \<open>
  Claim C7.  When the external navigation callback fails (it throws, or its promise is
  rejected), the failure is caught in \<open>provideDefinition\<close>, which returns \<open>null\<close>;
  no call of \<open>provideDefinition\<close> throws.
\<close>

theorem collaborator_failure_caught:
  "(onExternalNavigation (options this) = Some callback \<and>
    CallExternalNavigation a b c \<in> set (snd (provideDefinition Uri_parse this model position token)) \<and>
    callback a b c = Rejected reason \<longrightarrow>
      fst (provideDefinition Uri_parse this model position token) = Returns None \<and>
      ConsoleError (CallbackFailure reason)
        \<in> set (snd (provideDefinition Uri_parse this model position token))) \<and>
   fst (provideDefinition Uri_parse this model position token) \<noteq> Throws e"
  by (auto simp: provideDefinition_def try_external_navigation_def Let_def
           split: option.splits if_splits Outcome.splits NavigationOutcome.splits prod.splits)

theorem collaborator_failure_caught_witness:
  "provideDefinition Some
     (new_DefinitionProvider
        \<lparr>onExternalNavigation = Some (\<lambda>a b c. Rejected ''no such module''),
         includeBuiltins = None\<rparr>)
     \<lparr>languageId = ''python'', getValue = ''from os import path as p\<newline>path'',
      model_uri = ''file:///a.py''\<rparr>
     \<lparr>lineNumber = 2, column = 1\<rparr>
     \<lparr>requested_at_call = False, requested_during_await = False\<rparr>
   = (Returns None,
      [CallGetSymbolAtPosition, CallFindDefinitions, CallGetImportPath,
       CallExternalNavigation ''path'' ''os'' ''file:///a.py'',
       ConsoleError (CallbackFailure ''no such module'')])"
proof -
  let ?cb = "\<lambda>a b c. Rejected ''no such module''"
  let ?prov = "new_DefinitionProvider
        \<lparr>onExternalNavigation = Some ?cb, includeBuiltins = None\<rparr>"
  let ?model = "\<lparr>languageId = ''python'', getValue = ''from os import path as p\<newline>path'',
      model_uri = ''file:///a.py''\<rparr>"
  let ?position = "\<lparr>lineNumber = 2, column = 1\<rparr>"
  let ?token = "\<lparr>requested_at_call = False, requested_during_await = False\<rparr>"
  have e: "snd (provideDefinition Some ?prov ?model ?position ?token) =
      [CallGetSymbolAtPosition, CallFindDefinitions, CallGetImportPath,
       CallExternalNavigation ''path'' ''os'' ''file:///a.py'',
       ConsoleError (CallbackFailure ''no such module'')]"
    by code_simp
  have o: "onExternalNavigation (options ?prov) = Some ?cb"
    by (simp add: new_DefinitionProvider_def)
  have "fst (provideDefinition Some ?prov ?model ?position ?token) = Returns None"
    using collaborator_failure_caught[of ?prov ?cb "''path''" "''os''" "''file:///a.py''"
        Some ?model ?position ?token "''no such module''"] e o
    by simp
  with e show ?thesis by (simp add: prod_eq_iff)
qed

text \<open>
  Claim C9.  When the token is already cancelled at the call, the language has an
  analyzer and the cursor touches an identifier, \<open>provideDefinition\<close> returns \<open>null\<close>
  after \<open>getSymbolAtPosition\<close> alone: \<open>findDefinitions\<close> is not called, whatever the
  document defines.
\<close>

theorem cancelled_before_extraction:
  assumes "requested_at_call token"
    and "analyzers this (languageId model) = Some analyzer"
    and "getSymbolAtPosition analyzer (getValue model) (lineNumber position) (column position)
           = Some symbolName"
  shows "provideDefinition Uri_parse this model position token
           = (Returns None, [CallGetSymbolAtPosition])"
  using assms by (simp add: provideDefinition_def Let_def)

text \<open>
  The Python document \<open>def foo():\<close> with the cursor on \<open>foo\<close>, which the document
  defines: nothing is returned for a cancelled token.
\<close>

theorem cancelled_before_extraction_witness:
  "py_findDefinitions ''def foo():'' =
     Some [\<lparr>name = ''foo'', startLine = 1, startColumn = 5, endLine = 1, endColumn = 8,
             kind = Function\<rparr>] \<and>
   provideDefinition Some
     (new_DefinitionProvider \<lparr>onExternalNavigation = None, includeBuiltins = None\<rparr>)
     \<lparr>languageId = ''python'', getValue = ''def foo():'', model_uri = ''file:///a.py''\<rparr>
     \<lparr>lineNumber = 1, column = 5\<rparr>
     \<lparr>requested_at_call = True, requested_during_await = False\<rparr>
   = (Returns None, [CallGetSymbolAtPosition])"
proof -
  let ?prov = "new_DefinitionProvider \<lparr>onExternalNavigation = None, includeBuiltins = None\<rparr>"
  let ?model = "\<lparr>languageId = ''python'', getValue = ''def foo():'',
      model_uri = ''file:///a.py''\<rparr>"
  let ?position = "\<lparr>lineNumber = 1, column = 5\<rparr>"
  let ?token = "\<lparr>requested_at_call = True, requested_during_await = False\<rparr>"
  have a: "analyzers ?prov (languageId ?model) = Some PythonAnalyzer"
    by (simp add: new_DefinitionProvider_def)
  have s: "getSymbolAtPosition PythonAnalyzer (getValue ?model) (lineNumber ?position)
             (column ?position) = Some ''foo''"
    by code_simp
  have t: "requested_at_call ?token" by simp
  have d: "py_findDefinitions ''def foo():'' =
     Some [\<lparr>name = ''foo'', startLine = 1, startColumn = 5, endLine = 1, endColumn = 8,
             kind = Function\<rparr>]"
    by code_simp
  from cancelled_before_extraction[OF t a s, of Some] d show ?thesis by simp
qed

text \<open>
  Claim C10.  \<open>dispose\<close> leaves the registry of analyzers and the list of disposables
  empty; a second \<open>dispose\<close> changes nothing and disposes nothing; after \<open>dispose\<close>,
  \<open>provideDefinition\<close> returns \<open>null\<close> for every model, position and token, without
  calling anything.
\<close>

theorem dispose_clears_provider:
  "analyzers (fst (dispose this)) = Map.empty \<and>
   disposables (fst (dispose this)) = [] \<and>
   dispose (fst (dispose this)) = (fst (dispose this), []) \<and>
   provideDefinition Uri_parse (fst (dispose this)) model position token = (Returns None, [])"
  by (simp add: dispose_def provideDefinition_def)

end
